theory Spec2Isabelle
  imports Main
begin

section \<open>Profile Key Manager: the data model of ProfileManager.tsx\<close>

text \<open>
  The component \<^verbatim>\<open>ProfileManager\<close> (src/components/ProfileManager.tsx) keeps its state
  in React hooks and reacts to wallet events, a timer and button clicks.  The embedding
  below threads that state explicitly through one record and turns every handler and
  effect of the component into a function on it.

  Conventions.
  \<^item> A public key is represented by its base58 text, the value of \<^verbatim>\<open>toBase58()\<close>.
    The acceptance test of the \<^verbatim>\<open>PublicKey\<close> constructor of the web3 library (the
    constructor throws on a malformed address) is not code of this repository: it is the
    parameter \<open>wellFormed\<close> of every function that calls the constructor.
  \<^item> A JavaScript string is a list of characters; \<^verbatim>\<open>trim()\<close> removes the white space
    and line terminators among the code units below 256.
  \<^item> A promise that can reject is a value of \<open>string + 'a\<close>: \<open>Inl msg\<close> is the
    exception with its message, \<open>Inr v\<close> the result.  The results of the wallet, the SDK
    and the RPC node are inputs of the handler that awaits them.
  \<^item> The handler that asks the destination wallet to sign and then submits is modelled
    with its suspension points: the part that runs at the click, the continuation after
    \<^verbatim>\<open>await wallet.signTransaction\<close> and the continuation after the awaits on the network.
    Timer ticks, wallet changes and clicks can come between them, and each continuation
    works on the state of the moment it runs.  The other \<^verbatim>\<open>async\<close> handlers run to
    completion in one step.
\<close>

subsection \<open>Transfer session\<close>

datatype TransferStep =
  idle | enter_destination | sign_current | connect_destination
  | sign_destination | complete | expired

record AccountMeta =
  pubkey :: string
  isSigner :: bool
  isWritable :: bool

text \<open>What the SDK was asked to encode; the encoding itself is opaque.\<close>

datatype IxCall =
  RemoveKeys string string nat nat
  | AdjustAuth string string string string nat nat int

record Instruction =
  ixCall :: IxCall
  keys :: "AccountMeta list"

record Transaction =
  instructions :: "Instruction list"
  recentBlockhash :: "string option"
  feePayer :: "string option"
  signatures :: "string list"

record TransferState =
  step :: TransferStep
  destinationPubkey :: string
  originalAuthPubkey :: string
  partiallySignedTx :: "Transaction option"
  profileKey :: string
  profileCreatedAt :: int
  profileKeyThreshold :: int
  signedAt :: "int option"
  error :: "string option"

definition initialTransferState :: TransferState where
  "initialTransferState =
     \<lparr> step = idle, destinationPubkey = [], originalAuthPubkey = [],
       partiallySignedTx = None, profileKey = [], profileCreatedAt = 0,
       profileKeyThreshold = 1, signedAt = None, error = None \<rparr>"

definition BLOCKHASH_VALIDITY_SECONDS :: int where
  "BLOCKHASH_VALIDITY_SECONDS = 42"

subsection \<open>Profiles, wallet and component state\<close>

record ProfileKey =
  pkKey :: string
  pkAuth :: bool
  pkAddKeys :: bool
  pkRemoveKeys :: bool
  pkExpireTime :: int

record PlayerProfile =
  profKey :: string
  profCreatedAt :: int
  profKeyThreshold :: int
  profileKeys :: "ProfileKey list"

record Wallet =
  publicKey :: "string option"
  canSign :: bool
  connected :: bool

datatype DebugInfo =
  NoInfo
  | ProgramMissing string
  | Found nat nat
  | FoundNoneOfMany nat nat
  | FetchError string

text \<open>A call of \<^verbatim>\<open>handleSignWithDestinationWallet\<close> that is suspended: at the wallet,
  with the deserialised transaction and the key of the wallet asked to sign, or at the
  network after \<^verbatim>\<open>sendRawTransaction\<close> has been called.\<close>

datatype Pending = AwaitingSignature Transaction string | AwaitingNetwork

record World =
  profiles :: "PlayerProfile list"
  loading :: bool
  processing :: bool
  selectedProfile :: "PlayerProfile option"
  modalOpen :: bool
  programId :: string
  debugInfo :: DebugInfo
  transferState :: TransferState
  timeRemaining :: "int option"
  prevWalletRef :: "string option"
  wallet :: Wallet
  clock :: int
  sentRaw :: "Transaction list"
  removeKeysBuilt :: "(string \<times> nat \<times> nat) list"
  sentByWallet :: "Transaction list"
  rpcReads :: nat
  alerts :: nat
  pendingSubmit :: "Pending option"

text \<open>
  The fields up to \<open>prevWalletRef\<close> are the hooks of the component.  \<open>wallet\<close> is the
  wallet adapter's current value and \<open>clock\<close> is \<^verbatim>\<open>Date.now()\<close> in milliseconds.  The
  remaining fields observe the outside world: \<open>sentRaw\<close> lists the arguments of every call
  of \<^verbatim>\<open>connection.sendRawTransaction\<close>, \<open>removeKeysBuilt\<close> the profile and index range of
  every call of \<^verbatim>\<open>PlayerProfile.removeKeys\<close>, \<open>sentByWallet\<close> the transactions handed to
  \<^verbatim>\<open>wallet.sendTransaction\<close>, \<open>rpcReads\<close> counts the read requests sent to the RPC node
  and \<open>alerts\<close> the alert boxes shown.  \<open>pendingSubmit\<close> is the suspended call of the
  destination-sign handler, if there is one.
\<close>

definition setTransferState :: "(TransferState \<Rightarrow> TransferState) \<Rightarrow> World \<Rightarrow> World" where
  "setTransferState f w = w\<lparr> transferState := f (transferState w) \<rparr>"

definition isTransferInProgress :: "World \<Rightarrow> bool" where
  "isTransferInProgress w =
     (step (transferState w) = connect_destination \<or>
      step (transferState w) = sign_destination \<or>
      step (transferState w) = expired \<or>
      step (transferState w) = complete)"

subsection \<open>Strings\<close>

definition isWhiteSpace :: "char \<Rightarrow> bool" where
  "isWhiteSpace c = (of_char c \<in> {9, 10, 11, 12, 13, 32, 160 :: nat})"

definition trim :: "string \<Rightarrow> string" where
  "trim s = rev (dropWhile isWhiteSpace (rev (dropWhile isWhiteSpace s)))"

definition slice_last :: "nat \<Rightarrow> string \<Rightarrow> string" where
  "slice_last n s = drop (length s - n) s"

text \<open>\<^verbatim>\<open>new PublicKey(s)\<close>: the key, as its base58 text, or the exception.\<close>

definition newPublicKey :: "(string \<Rightarrow> bool) \<Rightarrow> string \<Rightarrow> string + string" where
  "newPublicKey wellFormed s = (if wellFormed s then Inr s else Inl ''Invalid public key input'')"

text \<open>\<^verbatim>\<open>wallet.publicKey?.toBase58() || null\<close>: the empty string is falsy.\<close>

definition currentWallet :: "Wallet \<Rightarrow> string option" where
  "currentWallet wl =
     (case publicKey wl of None \<Rightarrow> None | Some s \<Rightarrow> if s = [] then None else Some s)"

section \<open>Handlers of the transfer flow\<close>

definition openTransferModal :: "PlayerProfile \<Rightarrow> World \<Rightarrow> World" where
  "openTransferModal profile w =
     w\<lparr> selectedProfile := Some profile,
        transferState := initialTransferState
          \<lparr> step := enter_destination,
            originalAuthPubkey := (case publicKey (wallet w) of None \<Rightarrow> [] | Some s \<Rightarrow> s),
            profileKey := profKey profile,
            profileCreatedAt := profCreatedAt profile,
            profileKeyThreshold := profKeyThreshold profile \<rparr>,
        modalOpen := True \<rparr>"

definition closeTransferModal :: "World \<Rightarrow> World" where
  "closeTransferModal w =
     w\<lparr> modalOpen := False, selectedProfile := None, transferState := initialTransferState \<rparr>"

definition handleDestinationSubmit :: "(string \<Rightarrow> bool) \<Rightarrow> World \<Rightarrow> World" where
  "handleDestinationSubmit wellFormed w =
     (let dest = trim (destinationPubkey (transferState w)) in
      case newPublicKey wellFormed dest of
        Inl _ \<Rightarrow> setTransferState (\<lambda>prev. prev\<lparr> error := Some ''Invalid Solana address'' \<rparr>) w
      | Inr _ \<Rightarrow>
          if Some dest = publicKey (wallet w)
          then setTransferState
                 (\<lambda>prev. prev\<lparr> error := Some ''Destination cannot be the same as current wallet'' \<rparr>) w
          else setTransferState (\<lambda>prev. prev\<lparr> step := sign_current, error := None \<rparr>) w)"

definition handleRestartTransfer :: "World \<Rightarrow> World" where
  "handleRestartTransfer w =
     setTransferState
       (\<lambda>prev. prev\<lparr> step := sign_current, partiallySignedTx := None,
                       signedAt := None, error := None \<rparr>) w"

text \<open>The inline handlers of the destination input and of the buttons Back and
  Continue to Sign.\<close>

definition onChangeDestination :: "string \<Rightarrow> World \<Rightarrow> World" where
  "onChangeDestination v w =
     setTransferState (\<lambda>prev. prev\<lparr> destinationPubkey := v, error := None \<rparr>) w"

definition onClickBack :: "World \<Rightarrow> World" where
  "onClickBack w =
     setTransferState (\<lambda>prev. prev\<lparr> step := enter_destination, error := None \<rparr>) w"

definition onClickContinueToSign :: "World \<Rightarrow> World" where
  "onClickContinueToSign w =
     setTransferState (\<lambda>prev. prev\<lparr> step := sign_destination \<rparr>) w"

subsection \<open>The countdown timer\<close>

text \<open>The guard of the timer effect: \<^verbatim>\<open>!signedAt\<close> holds for \<^verbatim>\<open>null\<close> and for 0.\<close>

definition timerActive :: "TransferState \<Rightarrow> bool" where
  "timerActive ts =
     (\<not> (signedAt ts = None \<or> signedAt ts = Some 0 \<or> step ts = complete \<or> step ts = expired))"

definition updateTimer :: "World \<Rightarrow> World" where
  "updateTimer w =
     (case signedAt (transferState w) of
        None \<Rightarrow> w
      | Some t \<Rightarrow>
          let elapsed = (clock w - t) div 1000;
              remaining = BLOCKHASH_VALIDITY_SECONDS - elapsed
          in if remaining \<le> 0
             then setTransferState
                    (\<lambda>prev. prev\<lparr> step := expired,
                       error := Some ''Transaction expired. The blockhash is no longer valid. Please restart the transfer.'' \<rparr>)
                    (w\<lparr> timeRemaining := Some 0 \<rparr>)
             else w\<lparr> timeRemaining := Some remaining \<rparr>)"

text \<open>The body of the effect, run when \<open>signedAt\<close> or \<open>step\<close> has changed, and the
  callback of \<^verbatim>\<open>setInterval\<close>, which exists only while the effect is active.\<close>

definition timerEffect :: "World \<Rightarrow> World" where
  "timerEffect w =
     (if \<not> timerActive (transferState w) then w\<lparr> timeRemaining := None \<rparr> else updateTimer w)"

definition timerTick :: "World \<Rightarrow> World" where
  "timerTick w = (if timerActive (transferState w) then updateTimer w else w)"

subsection \<open>Watching the wallet\<close>

definition walletWatch :: "World \<Rightarrow> World" where
  "walletWatch w =
     (let cw = currentWallet (wallet w);
          ts = transferState w;
          w' = (case cw of
                  None \<Rightarrow> w
                | Some c \<Rightarrow>
                    if step ts = connect_destination
                    then (if c = destinationPubkey ts
                          then setTransferState
                                 (\<lambda>prev. prev\<lparr> step := sign_destination, error := None \<rparr>) w
                          else if c \<noteq> originalAuthPubkey ts
                          then setTransferState
                                 (\<lambda>prev. prev\<lparr> error :=
                                    Some (''Wrong wallet connected. Expected: ''
                                          @ take 4 (destinationPubkey ts) @ ''...''
                                          @ slice_last 4 (destinationPubkey ts)) \<rparr>) w
                          else w)
                    else w)
      in w'\<lparr> prevWalletRef := cw \<rparr>)"

text \<open>
  The effect decides on the state of the render it belongs to and hands React an updater,
  which React applies to the state of the moment.  \<open>walletWatchUpdater r\<close> is the updater
  chosen at the render \<open>r\<close>; in \<open>walletWatch\<close> above it is applied to the state of that
  same render (lemma \<open>walletWatch_updater\<close>).
\<close>

definition walletWatchUpdater :: "World \<Rightarrow> TransferState \<Rightarrow> TransferState" where
  "walletWatchUpdater r =
     (let ts = transferState r
      in case currentWallet (wallet r) of
           None \<Rightarrow> (\<lambda>prev. prev)
         | Some c \<Rightarrow>
             if step ts = connect_destination
             then (if c = destinationPubkey ts
                   then (\<lambda>prev. prev\<lparr> step := sign_destination, error := None \<rparr>)
                   else if c \<noteq> originalAuthPubkey ts
                   then (\<lambda>prev. prev\<lparr> error :=
                           Some (''Wrong wallet connected. Expected: ''
                                 @ take 4 (destinationPubkey ts) @ ''...''
                                 @ slice_last 4 (destinationPubkey ts)) \<rparr>)
                   else (\<lambda>prev. prev))
             else (\<lambda>prev. prev))"

subsection \<open>Transactions\<close>

definition requiredSigners :: "Transaction \<Rightarrow> string list" where
  "requiredSigners tx =
     (case feePayer tx of None \<Rightarrow> [] | Some p \<Rightarrow> [p])
     @ map pubkey (filter isSigner (concat (map keys (instructions tx))))"

text \<open>\<^verbatim>\<open>wallet.signTransaction(tx)\<close>: the wallet rejects, or adds the signature of its key.\<close>

definition signTransaction :: "string \<Rightarrow> string + unit \<Rightarrow> Transaction \<Rightarrow> string + Transaction" where
  "signTransaction me outcome tx =
     (case outcome of
        Inl e \<Rightarrow> Inl e
      | Inr _ \<Rightarrow> Inr (tx\<lparr> signatures := List.insert me (signatures tx) \<rparr>))"

text \<open>\<^verbatim>\<open>tx.serialize({requireAllSignatures})\<close>: with the flag set (the default) the
  library throws unless every required signer has signed.  The serialised bytes are
  represented by the transaction they decode to.\<close>

definition serialize :: "bool \<Rightarrow> Transaction \<Rightarrow> string + Transaction" where
  "serialize requireAllSignatures tx =
     (if feePayer tx = None then Inl ''Transaction fee payer required''
      else if requireAllSignatures \<and> \<not> set (requiredSigners tx) \<subseteq> set (signatures tx)
      then Inl ''Signature verification failed''
      else Inr tx)"

text \<open>The loop that marks the destination key as a required signer: the first account of
  the instruction with that key, if there is one.\<close>

fun markSigner :: "string \<Rightarrow> AccountMeta list \<Rightarrow> AccountMeta list" where
  "markSigner d [] = []"
| "markSigner d (k # ks) =
     (if pubkey k = d then k\<lparr> isSigner := True \<rparr> # ks else k # markSigner d ks)"

text \<open>\<^verbatim>\<open>profileKeys.findIndex(k => k.key.equals(me) && permissions(k).auth)\<close>; \<open>None\<close> is -1.\<close>

fun findAuthIndex :: "string \<Rightarrow> ProfileKey list \<Rightarrow> nat option" where
  "findAuthIndex me [] = None"
| "findAuthIndex me (k # ks) =
     (if pkKey k = me \<and> pkAuth k then Some 0 else map_option Suc (findAuthIndex me ks))"

subsection \<open>First signature\<close>

record SignEnv =
  adjustAuthIx :: "string + AccountMeta list list"
  signBlockhash :: "string + string"
  signOutcome :: "string + unit"

definition buildTransferTx ::
  "(string \<Rightarrow> bool) \<Rightarrow> SignEnv \<Rightarrow> string \<Rightarrow> PlayerProfile \<Rightarrow> World \<Rightarrow> string + Transaction" where
  "buildTransferTx wellFormed env me prof w =
     (case newPublicKey wellFormed (destinationPubkey (transferState w)) of
        Inl e \<Rightarrow> Inl e
      | Inr newAuthPubkey \<Rightarrow>
     (case findAuthIndex me (profileKeys prof) of
        None \<Rightarrow> Inl ''Current wallet is not an auth key''
      | Some currentKeyIndex \<Rightarrow>
     (case adjustAuthIx env of
        Inl e \<Rightarrow> Inl e
      | Inr kss \<Rightarrow>
     (case signBlockhash env of
        Inl e \<Rightarrow> Inl e
      | Inr blockhash \<Rightarrow>
          let ixs = map (\<lambda>ks. \<lparr> ixCall = AdjustAuth (profKey prof) me newAuthPubkey (programId w)
                                           currentKeyIndex (currentKeyIndex + 1)
                                           (profKeyThreshold prof),
                                  keys = markSigner newAuthPubkey ks \<rparr>) kss;
              tx = \<lparr> instructions = ixs, recentBlockhash = Some blockhash,
                     feePayer = Some newAuthPubkey, signatures = [] \<rparr>
          in (case signTransaction me (signOutcome env) tx of
                Inl e \<Rightarrow> Inl e
              | Inr signedTx \<Rightarrow> serialize False signedTx)))))"

definition handleSignWithCurrentWallet :: "(string \<Rightarrow> bool) \<Rightarrow> SignEnv \<Rightarrow> World \<Rightarrow> World" where
  "handleSignWithCurrentWallet wellFormed env w =
     (case (publicKey (wallet w), selectedProfile w) of
        (Some me, Some prof) \<Rightarrow>
          if \<not> canSign (wallet w) then w
          else
            let w1 = w\<lparr> processing := True \<rparr>;
                w2 = (case buildTransferTx wellFormed env me prof w of
                        Inr base64Tx \<Rightarrow>
                          setTransferState
                            (\<lambda>prev. prev\<lparr> step := connect_destination,
                               partiallySignedTx := Some base64Tx,
                               signedAt := Some (clock w), error := None \<rparr>) w1
                      | Inl e \<Rightarrow>
                          setTransferState
                            (\<lambda>prev. prev\<lparr> error := Some (''Failed to sign: '' @ e) \<rparr>) w1)
            in w2\<lparr> processing := False \<rparr>
      | _ \<Rightarrow> w)"

subsection \<open>Second signature and submission\<close>

text \<open>
  \<^verbatim>\<open>handleSignWithDestinationWallet\<close> in three parts.  At the click: the guards, the
  wallet check, \<^verbatim>\<open>setProcessing(true)\<close>, the deserialisation of the stored transaction and
  the call of \<^verbatim>\<open>wallet.signTransaction\<close>, whose answer is awaited.
\<close>

definition handleSignWithDestinationWallet :: "World \<Rightarrow> World" where
  "handleSignWithDestinationWallet w =
     (case (publicKey (wallet w), partiallySignedTx (transferState w)) of
        (Some me, Some stored) \<Rightarrow>
          if \<not> canSign (wallet w) then w
          else if me \<noteq> destinationPubkey (transferState w)
          then setTransferState
                 (\<lambda>prev. prev\<lparr> error := Some ''Please connect the destination wallet to continue'' \<rparr>) w
          else w\<lparr> processing := True, pendingSubmit := Some (AwaitingSignature stored me) \<rparr>
      | _ \<Rightarrow> w)"

text \<open>The \<^verbatim>\<open>catch\<close> and \<^verbatim>\<open>finally\<close> blocks of the handler: they end the call.\<close>

definition submissionFailed :: "string \<Rightarrow> World \<Rightarrow> World" where
  "submissionFailed e w =
     (setTransferState (\<lambda>prev. prev\<lparr> error := Some (''Failed: '' @ e) \<rparr>) w)
       \<lparr> processing := False, pendingSubmit := None \<rparr>"

text \<open>
  When the wallet has answered: the rejection is caught; otherwise the signed transaction
  is serialised with all signatures required and \<^verbatim>\<open>sendRawTransaction\<close> is called, whose
  answer is awaited.
\<close>

definition destinationSigned :: "string + unit \<Rightarrow> World \<Rightarrow> World" where
  "destinationSigned outcome w =
     (case pendingSubmit w of
        Some (AwaitingSignature tx me) \<Rightarrow>
          (case signTransaction me outcome tx of
             Inl e \<Rightarrow> submissionFailed e w
           | Inr fullySignedTx \<Rightarrow>
          (case serialize True fullySignedTx of
             Inl e \<Rightarrow> submissionFailed e w
           | Inr raw \<Rightarrow> w\<lparr> sentRaw := sentRaw w @ [raw], pendingSubmit := Some AwaitingNetwork \<rparr>))
      | _ \<Rightarrow> w)"

record SubmitEnv =
  sendRawOutcome :: "string + string"
  confirmBlockhash :: "string + string"
  confirmOutcome :: "string + unit"

text \<open>
  When the network has answered the three awaits that follow (the submission, the latest
  blockhash, the confirmation): the first failure is caught; otherwise the updater of the
  completion is applied to the session as it is then.
\<close>

definition submissionSettled :: "SubmitEnv \<Rightarrow> World \<Rightarrow> World" where
  "submissionSettled env w =
     (case pendingSubmit w of
        Some AwaitingNetwork \<Rightarrow>
          (case sendRawOutcome env of
             Inl e \<Rightarrow> submissionFailed e w
           | Inr txid \<Rightarrow>
          (case confirmBlockhash env of
             Inl e \<Rightarrow> submissionFailed e w
           | Inr _ \<Rightarrow>
          (case confirmOutcome env of
             Inl e \<Rightarrow> submissionFailed e w
           | Inr _ \<Rightarrow>
               (setTransferState (\<lambda>prev. prev\<lparr> step := complete, error := None \<rparr>) w)
                 \<lparr> processing := False, pendingSubmit := None \<rparr>)))
      | _ \<Rightarrow> w)"

section \<open>The registry view\<close>

record FetchEnv =
  programAccount :: "string + bool"
  allAccounts :: "string + nat"
  readAll :: "string + (string + PlayerProfile) list"

text \<open>
  \<open>programAccount\<close> is the answer of \<^verbatim>\<open>getAccountInfo\<close> (whether the program account
  exists), \<open>allAccounts\<close> the number of accounts \<^verbatim>\<open>getProgramAccounts\<close> returns and
  \<open>readAll\<close> the results of \<^verbatim>\<open>readAllFromRPC\<close>, each of type ok (\<open>Inr\<close>) or not.  The
  memoised \<^verbatim>\<open>program\<close> is null exactly when the program id is not a well-formed key.
\<close>

definition fetchProfiles :: "(string \<Rightarrow> bool) \<Rightarrow> FetchEnv \<Rightarrow> World \<Rightarrow> World" where
  "fetchProfiles wellFormed env w =
     (if isTransferInProgress w then w
      else if publicKey (wallet w) = None \<or> \<not> wellFormed (programId w) then w
      else
        let w1 = w\<lparr> loading := True, debugInfo := NoInfo \<rparr>;
            w2 = (case programAccount env of
                    Inl e \<Rightarrow> w1\<lparr> rpcReads := rpcReads w1 + 1, debugInfo := FetchError e \<rparr>
                  | Inr False \<Rightarrow>
                      w1\<lparr> rpcReads := rpcReads w1 + 1,
                          debugInfo := ProgramMissing (programId w), profiles := [] \<rparr>
                  | Inr True \<Rightarrow>
                 (case allAccounts env of
                    Inl e \<Rightarrow> w1\<lparr> rpcReads := rpcReads w1 + 2, debugInfo := FetchError e \<rparr>
                  | Inr allCount \<Rightarrow>
                 (case readAll env of
                    Inl e \<Rightarrow> w1\<lparr> rpcReads := rpcReads w1 + 3, debugInfo := FetchError e \<rparr>
                  | Inr results \<Rightarrow>
                      let myProfiles = concat (map (\<lambda>r. case r of Inl _ \<Rightarrow> [] | Inr d \<Rightarrow> [d]) results)
                      in w1\<lparr> rpcReads := rpcReads w1 + 3,
                             debugInfo := (if length myProfiles = 0 \<and> allCount > 0
                                           then FoundNoneOfMany (length myProfiles) allCount
                                           else Found (length myProfiles) allCount),
                             profiles := myProfiles \<rparr>)))
        in w2\<lparr> loading := False \<rparr>)"

record DeleteEnv =
  removeKeysIx :: "string + AccountMeta list list"
  deleteBlockhash :: "string + string"
  sendOutcome :: "string + string"
  deleteConfirm :: "string + unit"
  refresh :: FetchEnv

definition handleDeleteKey ::
  "(string \<Rightarrow> bool) \<Rightarrow> DeleteEnv \<Rightarrow> PlayerProfile \<Rightarrow> nat \<Rightarrow> World \<Rightarrow> World" where
  "handleDeleteKey wellFormed env profile keyIndex w =
     (case publicKey (wallet w) of
        None \<Rightarrow> w
      | Some me \<Rightarrow>
          if \<not> canSign (wallet w) then w
          else
            let w1 = w\<lparr> processing := True,
                       removeKeysBuilt := removeKeysBuilt w @ [(profKey profile, keyIndex, keyIndex + 1)] \<rparr>;
                failed = (\<lambda>v. v\<lparr> alerts := alerts v + 1 \<rparr>);
                w2 = (case removeKeysIx env of
                        Inl e \<Rightarrow> failed w1
                      | Inr kss \<Rightarrow>
                     (case deleteBlockhash env of
                        Inl e \<Rightarrow> failed w1
                      | Inr blockhash \<Rightarrow>
                          let tx = \<lparr> instructions =
                                       map (\<lambda>ks. \<lparr> ixCall = RemoveKeys (profKey profile) me keyIndex (keyIndex + 1),
                                                    keys = ks \<rparr>) kss,
                                     recentBlockhash = Some blockhash,
                                     feePayer = Some me, signatures = [] \<rparr>;
                              w1s = w1\<lparr> sentByWallet := sentByWallet w1 @ [tx] \<rparr>
                          in
                     (case sendOutcome env of
                        Inl e \<Rightarrow> failed w1s
                      | Inr txid \<Rightarrow>
                     (case deleteConfirm env of
                        Inl e \<Rightarrow> failed w1s
                      | Inr _ \<Rightarrow> fetchProfiles wellFormed (refresh env) w1s))))
            in w2\<lparr> processing := False \<rparr>)"

section \<open>What is rendered\<close>

definition showTransferModal :: "World \<Rightarrow> bool" where
  "showTransferModal w =
     (modalOpen w \<and> (step (transferState w) \<noteq> idle \<or> connected (wallet w)))"

definition showConnectWalletMessage :: "World \<Rightarrow> bool" where
  "showConnectWalletMessage w = (\<not> connected (wallet w) \<and> \<not> isTransferInProgress w)"

text \<open>The component returns early with the connect message or the loading message;
  otherwise it renders the page and, over it, the modal.\<close>

definition pageRendered :: "World \<Rightarrow> bool" where
  "pageRendered w =
     (\<not> showConnectWalletMessage w \<and> \<not> (loading w \<and> \<not> isTransferInProgress w))"

definition modalAt :: "TransferStep \<Rightarrow> World \<Rightarrow> bool" where
  "modalAt s w = (pageRendered w \<and> showTransferModal w \<and> step (transferState w) = s)"

definition listRendered :: "World \<Rightarrow> bool" where
  "listRendered w = (pageRendered w \<and> \<not> isTransferInProgress w \<and> profiles w \<noteq> [])"

datatype RowAction = TransferAuthButton | DeleteButton | NoButton

text \<open>The Actions cell of one row of a profile's key table.\<close>

definition rowAction :: "Wallet \<Rightarrow> ProfileKey \<Rightarrow> RowAction" where
  "rowAction wl pk =
     (let isAuth = pkAuth pk;
          isMe = (publicKey wl = Some (pkKey pk))
      in if isAuth \<and> isMe then TransferAuthButton
         else if \<not> isAuth then DeleteButton
         else NoButton)"

definition rowButton :: "World \<Rightarrow> nat \<Rightarrow> nat \<Rightarrow> RowAction" where
  "rowButton w p i =
     (if listRendered w \<and> p < length (profiles w) \<and> i < length (profileKeys (profiles w ! p))
      then rowAction (wallet w) (profileKeys (profiles w ! p) ! i)
      else NoButton)"

section \<open>Events\<close>

datatype Event =
  WalletChanged Wallet
  | Elapse nat
  | TimerTick
  | RunFetchProfiles FetchEnv
  | SetProgramId string
  | ClickTransferAuth nat nat
  | ClickDelete nat nat DeleteEnv
  | TypeDestination string
  | ClickContinue
  | ClickBack
  | ClickSignCurrent SignEnv
  | ClickContinueToSign
  | ClickSignDestination
  | DestinationSigned "string + unit"
  | SubmissionSettled SubmitEnv
  | ClickRestart
  | ClickCancel

text \<open>
  One event, without the effects that follow it.  A click does something only when its
  button is rendered and enabled.  \<open>RunFetchProfiles\<close> is a call of \<^verbatim>\<open>fetchProfiles\<close>,
  by its effect or by the Search button; \<open>ClickCancel\<close> is any of the buttons bound to
  \<^verbatim>\<open>closeTransferModal\<close> (Cancel, Done).  \<open>DestinationSigned\<close> and \<open>SubmissionSettled\<close> are
  the answers of the wallet and of the network to a suspended call of the destination-sign
  handler; without such a call they are no events at all.
\<close>

definition act :: "(string \<Rightarrow> bool) \<Rightarrow> Event \<Rightarrow> World \<Rightarrow> World" where
  "act wellFormed e w =
     (case e of
        WalletChanged wl \<Rightarrow> w\<lparr> wallet := wl \<rparr>
      | Elapse d \<Rightarrow> w\<lparr> clock := clock w + int d \<rparr>
      | TimerTick \<Rightarrow> timerTick w
      | RunFetchProfiles env \<Rightarrow> fetchProfiles wellFormed env w
      | SetProgramId v \<Rightarrow>
          if pageRendered w \<and> \<not> isTransferInProgress w then w\<lparr> programId := v \<rparr> else w
      | ClickTransferAuth p i \<Rightarrow>
          if rowButton w p i = TransferAuthButton \<and> \<not> processing w
          then openTransferModal (profiles w ! p) w else w
      | ClickDelete p i env \<Rightarrow>
          if rowButton w p i = DeleteButton \<and> \<not> processing w
          then handleDeleteKey wellFormed env (profiles w ! p) i w else w
      | TypeDestination v \<Rightarrow>
          if modalAt enter_destination w then onChangeDestination v w else w
      | ClickContinue \<Rightarrow>
          if modalAt enter_destination w \<and> trim (destinationPubkey (transferState w)) \<noteq> []
          then handleDestinationSubmit wellFormed w else w
      | ClickBack \<Rightarrow>
          if modalAt sign_current w \<and> \<not> processing w then onClickBack w else w
      | ClickSignCurrent env \<Rightarrow>
          if modalAt sign_current w \<and> \<not> processing w
          then handleSignWithCurrentWallet wellFormed env w else w
      | ClickContinueToSign \<Rightarrow>
          if modalAt connect_destination w
             \<and> publicKey (wallet w) = Some (destinationPubkey (transferState w))
          then onClickContinueToSign w else w
      | ClickSignDestination \<Rightarrow>
          if modalAt sign_destination w \<and> \<not> processing w
          then handleSignWithDestinationWallet w else w
      | DestinationSigned outcome \<Rightarrow> destinationSigned outcome w
      | SubmissionSettled env \<Rightarrow> submissionSettled env w
      | ClickRestart \<Rightarrow>
          if modalAt expired w then handleRestartTransfer w else w
      | ClickCancel \<Rightarrow>
          if modalAt enter_destination w \<or> modalAt connect_destination w
             \<or> (modalAt sign_destination w \<and> \<not> processing w)
             \<or> modalAt complete w \<or> modalAt expired w
          then closeTransferModal w else w)"

text \<open>
  The effects that run after an event: the wallet watch when one of its dependencies
  (wallet key, step, destination, original key) has changed, then the timer effect when
  \<open>signedAt\<close> or \<open>step\<close> has changed.
\<close>

definition walletDeps :: "World \<Rightarrow> string option \<times> TransferStep \<times> string \<times> string" where
  "walletDeps w =
     (publicKey (wallet w), step (transferState w),
      destinationPubkey (transferState w), originalAuthPubkey (transferState w))"

definition timerDeps :: "World \<Rightarrow> int option \<times> TransferStep" where
  "timerDeps w = (signedAt (transferState w), step (transferState w))"

definition settle :: "World \<Rightarrow> World \<Rightarrow> World" where
  "settle before after =
     (let w1 = (if walletDeps after \<noteq> walletDeps before then walletWatch after else after)
      in if timerDeps w1 \<noteq> timerDeps before then timerEffect w1 else w1)"

definition fire :: "(string \<Rightarrow> bool) \<Rightarrow> Event \<Rightarrow> World \<Rightarrow> World" where
  "fire wellFormed e w = settle w (act wellFormed e w)"

definition run :: "(string \<Rightarrow> bool) \<Rightarrow> Event list \<Rightarrow> World \<Rightarrow> World" where
  "run wellFormed es w = foldl (\<lambda>v e. fire wellFormed e v) w es"

definition PLAYER_PROFILE_PROGRAM_ID :: string where
  "PLAYER_PROFILE_PROGRAM_ID = ''pprofELXjL5Kck7Jn5hCpwAL82DpTkSYBENzahVtbc9''"

text \<open>The component when it is mounted, with the wallet and the time of that moment.\<close>

definition initialWorld :: "Wallet \<Rightarrow> int \<Rightarrow> World" where
  "initialWorld wl t =
     \<lparr> profiles = [], loading = False, processing = False, selectedProfile = None,
       modalOpen = False, programId = PLAYER_PROFILE_PROGRAM_ID, debugInfo = NoInfo,
       transferState = initialTransferState, timeRemaining = None, prevWalletRef = None,
       wallet = wl, clock = t, sentRaw = [], removeKeysBuilt = [], sentByWallet = [],
       rpcReads = 0, alerts = 0, pendingSubmit = None \<rparr>"

inductive_set reachable :: "(string \<Rightarrow> bool) \<Rightarrow> World set" for wellFormed :: "string \<Rightarrow> bool" where
  mounted: "initialWorld wl t \<in> reachable wellFormed"
| event: "w \<in> reachable wellFormed \<Longrightarrow> fire wellFormed e w \<in> reachable wellFormed"

section \<open>Invariant of the transfer session\<close>

definition isTransferIx :: "string \<Rightarrow> string \<Rightarrow> Instruction \<Rightarrow> bool" where
  "isTransferIx a d ix =
     (case ixCall ix of AdjustAuth _ s n _ _ _ _ \<Rightarrow> s = a \<and> n = d | RemoveKeys _ _ _ _ \<Rightarrow> False)"

text \<open>A transfer of the authority from \<open>a\<close> to \<open>d\<close>, paid by \<open>d\<close>, that carries the
  signature of \<open>a\<close> alone, and one that carries both signatures and every signature its
  accounts require.\<close>

definition partiallySigned :: "string \<Rightarrow> string \<Rightarrow> Transaction \<Rightarrow> bool" where
  "partiallySigned a d tx =
     (feePayer tx = Some d \<and> signatures tx = [a] \<and> list_all (isTransferIx a d) (instructions tx))"

definition bothSigned :: "string \<Rightarrow> string \<Rightarrow> Transaction \<Rightarrow> bool" where
  "bothSigned a d tx =
     (feePayer tx = Some d \<and> a \<in> set (signatures tx) \<and> d \<in> set (signatures tx)
      \<and> list_all (isTransferIx a d) (instructions tx)
      \<and> set (requiredSigners tx) \<subseteq> set (signatures tx))"

definition sessionInv :: "World \<Rightarrow> bool" where
  "sessionInv w =
     (list_all (\<lambda>tx. \<exists>a d. bothSigned a d tx) (sentRaw w) \<and>
      (case partiallySignedTx (transferState w) of
         None \<Rightarrow> True
       | Some tx \<Rightarrow>
           (\<exists>a. partiallySigned a (destinationPubkey (transferState w)) tx)
           \<and> step (transferState w) \<noteq> idle \<and> step (transferState w) \<noteq> enter_destination
           \<and> step (transferState w) \<noteq> sign_current) \<and>
      (case pendingSubmit w of
         Some (AwaitingSignature tx me) \<Rightarrow> \<exists>a. partiallySigned a me tx
       | _ \<Rightarrow> True))"



section \<open>A sample session\<close>

text \<open>
  The examples instantiate the parameter \<open>wellFormed\<close> with the test the web3 library
  applies: the text consists of base58 digits and decodes to exactly 32 bytes (one zero
  byte for each leading digit 1, then the bytes of the number the digits denote).
\<close>

definition base58Alphabet :: string where
  "base58Alphabet = ''123456789ABCDEFGHJKLMNPQRSTUVWXYZabcdefghijkmnopqrstuvwxyz''"

fun digitOf :: "string \<Rightarrow> char \<Rightarrow> nat" where
  "digitOf [] c = 0"
| "digitOf (a # as) c = (if a = c then 0 else Suc (digitOf as c))"

definition base58Value :: "string \<Rightarrow> nat" where
  "base58Value s = foldl (\<lambda>n c. n * 58 + digitOf base58Alphabet c) 0 s"

definition isAddress :: "string \<Rightarrow> bool" where
  "isAddress s =
     (let z = length (takeWhile (\<lambda>c. c = CHR ''1'') s); n = base58Value s
      in list_all (\<lambda>c. c \<in> set base58Alphabet) s \<and> z \<le> 32 \<and> n < 256 ^ (32 - z)
         \<and> (z = 32 \<or> 256 ^ (31 - z) \<le> n))"

text \<open>Three wallets: \<open>walletA\<close> holds the auth key of the profile, \<open>walletD\<close> is the
  destination, \<open>walletC\<close> holds a key without the auth permission.\<close>

definition walletA :: string where "walletA = ''Vote111111111111111111111111111111111111111''"
definition walletD :: string where "walletD = ''Stake11111111111111111111111111111111111111''"
definition walletC :: string where "walletC = ''Config1111111111111111111111111111111111111''"

definition connectedAs :: "string \<Rightarrow> Wallet" where
  "connectedAs a = \<lparr> publicKey = Some a, canSign = True, connected = True \<rparr>"

definition disconnected :: Wallet where
  "disconnected = \<lparr> publicKey = None, canSign = False, connected = False \<rparr>"

definition profileOfA :: PlayerProfile where
  "profileOfA =
     \<lparr> profKey = ''SysvarRent111111111111111111111111111111111'', profCreatedAt = 1700000000,
       profKeyThreshold = 1,
       profileKeys = [\<lparr> pkKey = walletA, pkAuth = True, pkAddKeys = False,
                         pkRemoveKeys = False, pkExpireTime = -1 \<rparr>,
                      \<lparr> pkKey = walletC, pkAuth = False, pkAddKeys = True,
                         pkRemoveKeys = False, pkExpireTime = -1 \<rparr>] \<rparr>"

definition fetchOk :: FetchEnv where
  "fetchOk = \<lparr> programAccount = Inr True, allAccounts = Inr 1, readAll = Inr [Inr profileOfA] \<rparr>"

definition fetchNone :: FetchEnv where
  "fetchNone = \<lparr> programAccount = Inr True, allAccounts = Inr 1, readAll = Inr [] \<rparr>"

definition signOk :: SignEnv where
  "signOk = \<lparr> adjustAuthIx = Inr [[\<lparr> pubkey = walletA, isSigner = True, isWritable = False \<rparr>,
                                   \<lparr> pubkey = walletD, isSigner = False, isWritable = False \<rparr>]],
              signBlockhash = Inr ''blockhash'', signOutcome = Inr () \<rparr>"

definition submitOk :: SubmitEnv where
  "submitOk = \<lparr> sendRawOutcome = Inr ''signature'',
                confirmBlockhash = Inr ''blockhash2'', confirmOutcome = Inr () \<rparr>"

definition deleteOk :: DeleteEnv where
  "deleteOk = \<lparr> removeKeysIx = Inr [[\<lparr> pubkey = walletA, isSigner = True, isWritable = False \<rparr>]],
                deleteBlockhash = Inr ''blockhash'', sendOutcome = Inr ''signature'',
                deleteConfirm = Inr (), refresh = fetchOk \<rparr>"

definition partialTx :: Transaction where
  "partialTx =
     \<lparr> instructions =
         [\<lparr> ixCall = AdjustAuth (profKey profileOfA) walletA walletD PLAYER_PROFILE_PROGRAM_ID 0 1 1,
            keys = [\<lparr> pubkey = walletA, isSigner = True, isWritable = False \<rparr>,
                    \<lparr> pubkey = walletD, isSigner = True, isWritable = False \<rparr>] \<rparr>],
       recentBlockhash = Some ''blockhash'', feePayer = Some walletD, signatures = [walletA] \<rparr>"

text \<open>
  The worlds of one session, each the result of an event in the one before (lemmas
  \<open>s1\<close> to \<open>s11\<close> below): mounted with wallet A at time 1000000 ms (\<open>w0\<close>), profiles
  fetched (\<open>w1\<close>), Transfer Auth clicked (\<open>w2\<close>), destination D typed (\<open>w3\<close>) and
  submitted (\<open>w4\<close>), signed by A (\<open>w5\<close>), wallet disconnected 10.5 s later (\<open>w6\<close>), wallet D
  connected (\<open>w7\<close>), the timer tick 41.5 s after the first signature (\<open>w8\<close>), 0.6 s later
  (\<open>w9\<close>), Sign and Complete Transfer clicked (\<open>w9a\<close>), signed by D and submitted
  (\<open>w9b\<close>), confirmed (\<open>w10\<close>); and, from \<open>w8\<close>, the tick one second later (\<open>w11\<close>).
\<close>

definition w0 :: World where "w0 = initialWorld (connectedAs walletA) 1000000"

definition w1 :: World where
  "w1 = w0\<lparr> profiles := [profileOfA], debugInfo := Found 1 1, rpcReads := 3 \<rparr>"

definition w2 :: World where
  "w2 = w1\<lparr> selectedProfile := Some profileOfA, modalOpen := True,
            transferState := initialTransferState\<lparr> step := enter_destination,
               originalAuthPubkey := walletA, profileKey := profKey profileOfA,
               profileCreatedAt := 1700000000, profileKeyThreshold := 1 \<rparr>,
            prevWalletRef := Some walletA \<rparr>"

definition w3 :: World where
  "w3 = w2\<lparr> transferState := (transferState w2)\<lparr> destinationPubkey := walletD \<rparr> \<rparr>"

definition w4 :: World where
  "w4 = w3\<lparr> transferState := (transferState w3)\<lparr> step := sign_current \<rparr> \<rparr>"

definition w5 :: World where
  "w5 = w4\<lparr> transferState := (transferState w4)\<lparr> step := connect_destination,
              partiallySignedTx := Some partialTx, signedAt := Some 1000000 \<rparr>,
            timeRemaining := Some 42 \<rparr>"

definition w6 :: World where
  "w6 = w5\<lparr> clock := 1010500, wallet := disconnected, prevWalletRef := None \<rparr>"

definition w7 :: World where
  "w7 = w6\<lparr> wallet := connectedAs walletD, prevWalletRef := Some walletD,
            transferState := (transferState w6)\<lparr> step := sign_destination \<rparr>,
            timeRemaining := Some 32 \<rparr>"

definition w8 :: World where
  "w8 = w7\<lparr> clock := 1041500, timeRemaining := Some 1 \<rparr>"

definition w9 :: World where
  "w9 = w8\<lparr> clock := 1042100 \<rparr>"

definition w9a :: World where
  "w9a = w9\<lparr> processing := True, pendingSubmit := Some (AwaitingSignature partialTx walletD) \<rparr>"

definition w9b :: World where
  "w9b = w9a\<lparr> sentRaw := [partialTx\<lparr> signatures := [walletD, walletA] \<rparr>],
              pendingSubmit := Some AwaitingNetwork \<rparr>"

definition w10 :: World where
  "w10 = w9\<lparr> transferState := (transferState w9)\<lparr> step := complete \<rparr>,
             sentRaw := [partialTx\<lparr> signatures := [walletD, walletA] \<rparr>],
             timeRemaining := None \<rparr>"

definition w11 :: World where
  "w11 = w8\<lparr> clock := 1042500,
             transferState := (transferState w8)\<lparr> step := expired,
               error := Some ''Transaction expired. The blockhash is no longer valid. Please restart the transfer.'' \<rparr>,
             timeRemaining := None \<rparr>"

text \<open>
  The race of the timer with a signature in flight.  From \<open>w8\<close>, 41.5 s after the first
  signature: Sign and Complete Transfer is clicked and the wallet shows its prompt (\<open>r1\<close>);
  one second later the timer ticks and the session expires (\<open>r2\<close>); then the user approves
  in the wallet and the transaction is submitted (\<open>r3\<close>); the network confirms (\<open>r4\<close>).
\<close>

definition r1 :: World where
  "r1 = w8\<lparr> processing := True, pendingSubmit := Some (AwaitingSignature partialTx walletD) \<rparr>"

definition r2 :: World where
  "r2 = w11\<lparr> processing := True, pendingSubmit := Some (AwaitingSignature partialTx walletD) \<rparr>"

definition r3 :: World where
  "r3 = r2\<lparr> sentRaw := [partialTx\<lparr> signatures := [walletD, walletA] \<rparr>],
            pendingSubmit := Some AwaitingNetwork \<rparr>"

definition r4 :: World where
  "r4 = r3\<lparr> transferState := (transferState r3)\<lparr> step := complete, error := None \<rparr>,
            processing := False, pendingSubmit := None \<rparr>"

text \<open>
  Two side branches.  From \<open>w2\<close>: the wallet switches to C while the modal is open
  (\<open>x1\<close>), the address of A is typed as destination (\<open>x2\<close>) and submitted (\<open>x3\<close>).
  From \<open>w6\<close>: wallet C connects and the wrong-wallet error is recorded (\<open>y0\<close>); then the
  wallet switches to D, and \<open>y1\<close> is the state rendered before the effects of that switch
  have run.
\<close>

definition x1 :: World where
  "x1 = w2\<lparr> wallet := connectedAs walletC, prevWalletRef := Some walletC \<rparr>"

definition x2 :: World where
  "x2 = x1\<lparr> transferState := (transferState x1)\<lparr> destinationPubkey := walletA \<rparr> \<rparr>"

definition x3 :: World where
  "x3 = x2\<lparr> transferState := (transferState x2)\<lparr> step := sign_current \<rparr> \<rparr>"

definition y0 :: World where
  "y0 = w6\<lparr> wallet := connectedAs walletC, prevWalletRef := Some walletC,
            transferState := (transferState w6)
              \<lparr> error := Some ''Wrong wallet connected. Expected: Stak...1111'' \<rparr> \<rparr>"

definition y1 :: World where
  "y1 = y0\<lparr> wallet := connectedAs walletD \<rparr>"

text \<open>
  Further worlds: \<open>w8b\<close> is \<open>w8\<close> one second later, before the timer has ticked; \<open>u1\<close>
  and \<open>u2\<close> are \<open>w2\<close> after typing the address of D, respectively of A, with a leading
  space; \<open>u3\<close> is a session waiting in connect_destination whose stored destination is the
  address of D with a leading space, with wallet D connected.
\<close>

definition w8b :: World where
  "w8b = w8\<lparr> clock := 1042500 \<rparr>"

definition u1 :: World where
  "u1 = w2\<lparr> transferState := (transferState w2)\<lparr> destinationPubkey := CHR '' '' # walletD \<rparr> \<rparr>"

definition u2 :: World where
  "u2 = w2\<lparr> transferState := (transferState w2)\<lparr> destinationPubkey := CHR '' '' # walletA \<rparr> \<rparr>"

definition u3 :: World where
  "u3 = w7\<lparr> transferState := (transferState w7)
            \<lparr> step := connect_destination, destinationPubkey := CHR '' '' # walletD \<rparr> \<rparr>"

section \<open>Evaluating the sample session\<close>

lemmas model_defs =
  fire_def settle_def act_def walletDeps_def timerDeps_def timerEffect_def timerTick_def
  timerActive_def updateTimer_def walletWatch_def currentWallet_def setTransferState_def
  isTransferInProgress_def fetchProfiles_def handleDeleteKey_def showTransferModal_def
  showConnectWalletMessage_def pageRendered_def modalAt_def listRendered_def rowAction_def
  rowButton_def openTransferModal_def closeTransferModal_def handleDestinationSubmit_def
  handleRestartTransfer_def onChangeDestination_def onClickBack_def onClickContinueToSign_def
  handleSignWithCurrentWallet_def buildTransferTx_def handleSignWithDestinationWallet_def
  destinationSigned_def submissionSettled_def submissionFailed_def
  signTransaction_def serialize_def requiredSigners_def newPublicKey_def
  initialTransferState_def BLOCKHASH_VALIDITY_SECONDS_def slice_last_def Let_def

lemmas ex_defs =
  connectedAs_def disconnected_def fetchOk_def fetchNone_def signOk_def submitOk_def deleteOk_def

lemmas world_defs =
  w0_def w1_def w2_def w3_def w4_def w5_def w6_def w7_def w8_def w9_def w9a_def w9b_def
  w10_def w11_def r1_def r2_def r3_def r4_def
  initialWorld_def partialTx_def

lemmas more_world_defs = x1_def x2_def x3_def y0_def y1_def

lemmas side_world_defs = w8b_def u1_def u2_def u3_def

lemma addrA: "isAddress walletA"
  by (simp add: isAddress_def base58Value_def base58Alphabet_def walletA_def)

lemma addrD: "isAddress walletD"
  by (simp add: isAddress_def base58Value_def base58Alphabet_def walletD_def)

lemma addrC: "isAddress walletC"
  by (simp add: isAddress_def base58Value_def base58Alphabet_def walletC_def)

lemma addrP: "isAddress PLAYER_PROFILE_PROGRAM_ID"
  by (simp add: isAddress_def base58Value_def base58Alphabet_def PLAYER_PROFILE_PROGRAM_ID_def)

lemma wallets_distinct:
  "walletA \<noteq> walletD" "walletD \<noteq> walletA" "walletA \<noteq> walletC" "walletC \<noteq> walletA"
  "walletC \<noteq> walletD" "walletD \<noteq> walletC" "walletA \<noteq> []" "walletD \<noteq> []" "walletC \<noteq> []"
  by (simp_all add: walletA_def walletD_def walletC_def)

lemma wallets_trim: "trim walletA = walletA" "trim walletD = walletD" "trim walletC = walletC"
  by (simp_all add: walletA_def walletD_def walletC_def trim_def isWhiteSpace_def)

lemma s1: "fire isAddress (RunFetchProfiles fetchOk) w0 = w1"
  by (simp add: world_defs model_defs ex_defs addrP)

lemma s2: "fire isAddress (ClickTransferAuth 0 0) w1 = w2"
  by (simp add: world_defs model_defs ex_defs profileOfA_def wallets_distinct)

lemma s3: "fire isAddress (TypeDestination walletD) w2 = w3"
  by (simp add: world_defs model_defs ex_defs wallets_distinct)

lemma s4: "fire isAddress ClickContinue w3 = w4"
  by (simp add: world_defs model_defs ex_defs wallets_distinct wallets_trim addrD)

lemma s5: "fire isAddress (ClickSignCurrent signOk) w4 = w5"
  by (simp add: world_defs model_defs ex_defs wallets_distinct addrD profileOfA_def)

lemma s6: "fire isAddress (WalletChanged disconnected) (fire isAddress (Elapse 10500) w5) = w6"
  by (simp add: world_defs model_defs ex_defs wallets_distinct)

lemma s7: "fire isAddress (WalletChanged (connectedAs walletD)) w6 = w7"
  by (simp add: world_defs model_defs ex_defs wallets_distinct)

lemma s8: "fire isAddress TimerTick (fire isAddress (Elapse 31000) w7) = w8"
  by (simp add: world_defs model_defs ex_defs wallets_distinct)

lemma s9: "fire isAddress (Elapse 600) w8 = w9"
  by (simp add: world_defs model_defs ex_defs wallets_distinct)

lemma s10a: "fire isAddress ClickSignDestination w9 = w9a"
  by (simp add: world_defs model_defs ex_defs wallets_distinct)

lemma s10b: "fire isAddress (DestinationSigned (Inr ())) w9a = w9b"
  by (simp add: world_defs model_defs ex_defs wallets_distinct)

lemma s10: "fire isAddress (SubmissionSettled submitOk) w9b = w10"
  by (simp add: world_defs model_defs ex_defs wallets_distinct)

lemma sr1: "fire isAddress ClickSignDestination w8 = r1"
  by (simp add: world_defs model_defs ex_defs wallets_distinct)

lemma sr2: "fire isAddress TimerTick (fire isAddress (Elapse 1000) r1) = r2"
  by (simp add: world_defs model_defs ex_defs wallets_distinct)

lemma sr3: "fire isAddress (DestinationSigned (Inr ())) r2 = r3"
  by (simp add: world_defs model_defs ex_defs wallets_distinct)

lemma sr4: "fire isAddress (SubmissionSettled submitOk) r3 = r4"
  by (simp add: world_defs model_defs ex_defs wallets_distinct)

lemma s11: "fire isAddress TimerTick (fire isAddress (Elapse 1000) w8) = w11"
  by (simp add: world_defs model_defs ex_defs wallets_distinct)

lemma reach0: "w0 \<in> reachable isAddress"
  unfolding w0_def by (rule reachable.mounted)

lemma reach1: "w1 \<in> reachable isAddress"
  using reachable.event [OF reach0] s1 by metis

lemma reach2: "w2 \<in> reachable isAddress"
  using reachable.event [OF reach1] s2 by metis

lemma reach3: "w3 \<in> reachable isAddress"
  using reachable.event [OF reach2] s3 by metis

lemma reach4: "w4 \<in> reachable isAddress"
  using reachable.event [OF reach3] s4 by metis

lemma reach5: "w5 \<in> reachable isAddress"
  using reachable.event [OF reach4] s5 by metis

lemma reach6: "w6 \<in> reachable isAddress"
  using reachable.event [OF reachable.event [OF reach5]] s6 by metis

lemma reach7: "w7 \<in> reachable isAddress"
  using reachable.event [OF reach6] s7 by metis

lemma reach8: "w8 \<in> reachable isAddress"
  using reachable.event [OF reachable.event [OF reach7]] s8 by metis

lemma reach9: "w9 \<in> reachable isAddress"
  using reachable.event [OF reach8] s9 by metis

lemma reach10: "w10 \<in> reachable isAddress"
  using reachable.event [OF reachable.event [OF reachable.event [OF reach9]]] s10a s10b s10
  by metis

lemma reachr2: "r2 \<in> reachable isAddress"
  using reachable.event [OF reachable.event [OF reachable.event [OF reach8]]] sr1 sr2 by metis

lemma reach11: "w11 \<in> reachable isAddress"
  using reachable.event [OF reachable.event [OF reach8]] s11 by metis

text \<open>The main line of the session as one trace.\<close>

lemma sample_session:
  "run isAddress
     [RunFetchProfiles fetchOk, ClickTransferAuth 0 0, TypeDestination walletD, ClickContinue,
      ClickSignCurrent signOk, Elapse 10500, WalletChanged disconnected,
      WalletChanged (connectedAs walletD), Elapse 31000, TimerTick, Elapse 600,
      ClickSignDestination, DestinationSigned (Inr ()), SubmissionSettled submitOk] w0 = w10"
  by (simp add: run_def s1 s2 s3 s4 s5 s6 s7 s8 s9 s10a s10b s10)

lemma run_reachable: "w \<in> reachable wellFormed \<Longrightarrow> run wellFormed es w \<in> reachable wellFormed"
  unfolding run_def by (induction es arbitrary: w) (simp_all add: reachable.event)

lemma sx1: "fire isAddress (WalletChanged (connectedAs walletC)) w2 = x1"
  by (simp add: more_world_defs world_defs model_defs ex_defs wallets_distinct)

lemma sx2: "fire isAddress (TypeDestination walletA) x1 = x2"
  by (simp add: more_world_defs world_defs model_defs ex_defs wallets_distinct)

lemma sx3: "fire isAddress ClickContinue x2 = x3"
  by (simp add: more_world_defs world_defs model_defs ex_defs wallets_distinct wallets_trim addrA)




lemma reachx2: "x2 \<in> reachable isAddress"
  using reachable.event [OF reachable.event [OF reach2]] sx1 sx2 by metis


lemma s8b: "fire isAddress (Elapse 1000) w8 = w8b"
  by (simp add: side_world_defs world_defs model_defs ex_defs wallets_distinct)

lemma s11b: "fire isAddress TimerTick w8b = w11"
  using s11 by (simp add: s8b)

lemma su1: "fire isAddress (TypeDestination (CHR '' '' # walletD)) w2 = u1"
  by (simp add: side_world_defs world_defs model_defs ex_defs wallets_distinct)

lemma su2: "fire isAddress (TypeDestination (CHR '' '' # walletA)) w2 = u2"
  by (simp add: side_world_defs world_defs model_defs ex_defs wallets_distinct)

lemma reachu2: "u2 \<in> reachable isAddress"
  using reachable.event [OF reach2] su2 by metis

lemma padded_trim:
  "trim (CHR '' '' # walletD) = walletD" "trim (CHR '' '' # walletA) = walletA"
  "CHR '' '' # walletD \<noteq> walletD" "CHR '' '' # walletA \<noteq> walletA"
  by (simp_all add: walletA_def walletD_def trim_def isWhiteSpace_def)

section \<open>Expiry: the timer and the expired state\<close>

text \<open>A tick before the deadline updates the displayed time and nothing else.\<close>

lemma tick_before_deadline:
  assumes "signedAt (transferState w) = Some t" and "t \<noteq> 0"
      and "step (transferState w) \<noteq> complete" and "step (transferState w) \<noteq> expired"
      and "clock w - t < BLOCKHASH_VALIDITY_SECONDS * 1000"
  shows "fire wellFormed TimerTick w
           = w\<lparr> timeRemaining := Some (BLOCKHASH_VALIDITY_SECONDS - (clock w - t) div 1000) \<rparr>"
proof -
  have "(clock w - t) div 1000 < 42"
    using assms(5) by (simp add: BLOCKHASH_VALIDITY_SECONDS_def)
  then show ?thesis
    using assms(1-4)
    by (simp add: fire_def act_def settle_def timerTick_def timerActive_def updateTimer_def
        walletDeps_def timerDeps_def BLOCKHASH_VALIDITY_SECONDS_def Let_def)
qed

text \<open>With no call of the destination-sign handler suspended, an expired session stays
  expired under every event but restart and cancel, nothing is sent and no call starts.\<close>

lemma stay_expired:
  "step (transferState v) = expired \<Longrightarrow> pendingSubmit v = None \<Longrightarrow>
   e \<noteq> ClickRestart \<Longrightarrow> e \<noteq> ClickCancel \<Longrightarrow>
   step (transferState (fire wellFormed e v)) = expired
   \<and> sentRaw (fire wellFormed e v) = sentRaw v
   \<and> pendingSubmit (fire wellFormed e v) = None"
  by (cases e)
     (simp_all add: fire_def act_def settle_def walletWatch_def currentWallet_def timerDeps_def
      walletDeps_def timerTick_def timerActive_def fetchProfiles_def isTransferInProgress_def
      rowButton_def listRendered_def modalAt_def destinationSigned_def submissionSettled_def
      Let_def split: option.splits)

lemma tick_expires:
  assumes "signedAt (transferState w) = Some t" and "t \<noteq> 0"
      and "step (transferState w) \<noteq> complete" and "step (transferState w) \<noteq> expired"
      and "clock w - t \<ge> BLOCKHASH_VALIDITY_SECONDS * 1000"
  shows "step (transferState (timerTick w)) = expired"
    and "step (transferState (timerEffect w)) = expired"
proof -
  have "42 \<le> (clock w - t) div 1000"
    using assms(5) by (simp add: BLOCKHASH_VALIDITY_SECONDS_def)
  then show "step (transferState (timerTick w)) = expired"
    and "step (transferState (timerEffect w)) = expired"
    using assms(1-4)
    by (simp_all add: timerTick_def timerEffect_def timerActive_def updateTimer_def
        setTransferState_def BLOCKHASH_VALIDITY_SECONDS_def Let_def)
qed

lemma settle_keeps_expired:
  "step (transferState a) = expired \<Longrightarrow> step (transferState (settle b a)) = expired"
  by (simp add: settle_def walletWatch_def timerEffect_def timerActive_def currentWallet_def
      Let_def split: option.splits)

text \<open>No part of the destination-sign handler reads the clock.\<close>

lemma signDest_clock:
  "handleSignWithDestinationWallet (u\<lparr> clock := c \<rparr>)
     = (handleSignWithDestinationWallet u)\<lparr> clock := c \<rparr>"
  "destinationSigned outcome (u\<lparr> clock := c \<rparr>) = (destinationSigned outcome u)\<lparr> clock := c \<rparr>"
  "submissionSettled env (u\<lparr> clock := c \<rparr>) = (submissionSettled env u)\<lparr> clock := c \<rparr>"
  by (simp_all add: handleSignWithDestinationWallet_def destinationSigned_def
      submissionSettled_def submissionFailed_def setTransferState_def Let_def
      split: option.splits sum.splits Pending.splits)

section \<open>The invariant holds in every reachable world\<close>

lemma settle_frame:
  "sentRaw (settle b a) = sentRaw a"
  "pendingSubmit (settle b a) = pendingSubmit a"
  "partiallySignedTx (transferState (settle b a)) = partiallySignedTx (transferState a)"
  "destinationPubkey (transferState (settle b a)) = destinationPubkey (transferState a)"
  by (simp_all add: settle_def walletWatch_def timerEffect_def updateTimer_def setTransferState_def
      Let_def split: option.splits)

lemma settle_step:
  "step (transferState (settle b a)) = step (transferState a)
   \<or> step (transferState (settle b a)) = sign_destination
   \<or> step (transferState (settle b a)) = expired"
  by (simp add: settle_def walletWatch_def timerEffect_def updateTimer_def setTransferState_def
      Let_def split: option.splits)

lemma settle_inv: "sessionInv a \<Longrightarrow> sessionInv (settle b a)"
  using settle_step [of b a]
  by (auto simp: sessionInv_def settle_frame split: option.splits)

lemma fetch_frame:
  "sentRaw (fetchProfiles wellFormed env w) = sentRaw w"
  "pendingSubmit (fetchProfiles wellFormed env w) = pendingSubmit w"
  "transferState (fetchProfiles wellFormed env w) = transferState w"
  by (simp_all add: fetchProfiles_def Let_def split: sum.splits bool.splits)

lemma delete_frame:
  "sentRaw (handleDeleteKey wellFormed env p i w) = sentRaw w"
  "pendingSubmit (handleDeleteKey wellFormed env p i w) = pendingSubmit w"
  "transferState (handleDeleteKey wellFormed env p i w) = transferState w"
  by (simp_all add: handleDeleteKey_def fetch_frame Let_def split: option.splits sum.splits)

lemma build_partial:
  "buildTransferTx wellFormed env me prof w = Inr tx \<Longrightarrow>
   partiallySigned me (destinationPubkey (transferState w)) tx"
  by (auto simp: buildTransferTx_def newPublicKey_def signTransaction_def serialize_def
      partiallySigned_def isTransferIx_def list_all_iff Let_def
      split: sum.splits option.splits if_splits)

lemma signCurrent_inv:
  "sessionInv w \<Longrightarrow> sessionInv (handleSignWithCurrentWallet wellFormed env w)"
  by (auto simp: sessionInv_def handleSignWithCurrentWallet_def setTransferState_def Let_def
      dest: build_partial split: option.splits sum.splits)

lemma signCurrent_sent:
  "sentRaw (handleSignWithCurrentWallet wellFormed env w) = sentRaw w"
  "pendingSubmit (handleSignWithCurrentWallet wellFormed env w) = pendingSubmit w"
  by (simp_all add: handleSignWithCurrentWallet_def setTransferState_def Let_def
      split: option.splits sum.splits)

text \<open>The click sends nothing; the call it suspends holds the stored transaction and the
  key of the connected wallet, which is the stored destination.\<close>

lemma signDest_click:
  "sentRaw (handleSignWithDestinationWallet w) = sentRaw w"
  "transferState (handleSignWithDestinationWallet w) = transferState w
   \<or> transferState (handleSignWithDestinationWallet w)
        = (transferState w)\<lparr> error := Some ''Please connect the destination wallet to continue'' \<rparr>"
  "pendingSubmit (handleSignWithDestinationWallet w) = pendingSubmit w
   \<or> (\<exists>stored. partiallySignedTx (transferState w) = Some stored
        \<and> publicKey (wallet w) = Some (destinationPubkey (transferState w))
        \<and> pendingSubmit (handleSignWithDestinationWallet w)
             = Some (AwaitingSignature stored (destinationPubkey (transferState w))))"
  by (auto simp: handleSignWithDestinationWallet_def setTransferState_def
      split: option.splits)

text \<open>The continuation after the wallet's answer is the only place that sends.\<close>

lemma destinationSigned_sent:
  "sentRaw (destinationSigned outcome w) = sentRaw w \<or>
   (\<exists>tx me. pendingSubmit w = Some (AwaitingSignature tx me)
      \<and> set (requiredSigners (tx\<lparr> signatures := List.insert me (signatures tx) \<rparr>))
          \<subseteq> set (List.insert me (signatures tx))
      \<and> sentRaw (destinationSigned outcome w) =
          sentRaw w @ [tx\<lparr> signatures := List.insert me (signatures tx) \<rparr>])"
  by (auto simp: destinationSigned_def submissionFailed_def setTransferState_def
      signTransaction_def serialize_def Let_def
      split: option.splits sum.splits if_splits Pending.splits)

lemma destinationSigned_ts:
  "partiallySignedTx (transferState (destinationSigned outcome w)) = partiallySignedTx (transferState w)"
  "destinationPubkey (transferState (destinationSigned outcome w)) = destinationPubkey (transferState w)"
  "step (transferState (destinationSigned outcome w)) = step (transferState w)"
  "pendingSubmit (destinationSigned outcome w) = pendingSubmit w
   \<or> pendingSubmit (destinationSigned outcome w) = None
   \<or> pendingSubmit (destinationSigned outcome w) = Some AwaitingNetwork"
  by (auto simp: destinationSigned_def submissionFailed_def setTransferState_def
      signTransaction_def serialize_def Let_def
      split: option.splits sum.splits if_splits Pending.splits)

lemma submissionSettled_frame:
  "sentRaw (submissionSettled env w) = sentRaw w"
  "partiallySignedTx (transferState (submissionSettled env w)) = partiallySignedTx (transferState w)"
  "destinationPubkey (transferState (submissionSettled env w)) = destinationPubkey (transferState w)"
  "step (transferState (submissionSettled env w)) = step (transferState w)
   \<or> step (transferState (submissionSettled env w)) = complete"
  "pendingSubmit (submissionSettled env w) = pendingSubmit w
   \<or> pendingSubmit (submissionSettled env w) = None"
  by (auto simp: submissionSettled_def submissionFailed_def setTransferState_def Let_def
      split: option.splits sum.splits Pending.splits)

lemma partial_both:
  "partiallySigned a d tx \<Longrightarrow>
   set (requiredSigners (tx\<lparr> signatures := List.insert d (signatures tx) \<rparr>)) \<subseteq> insert d (set (signatures tx)) \<Longrightarrow>
   bothSigned a d (tx\<lparr> signatures := List.insert d (signatures tx) \<rparr>)"
  by (auto simp: partiallySigned_def bothSigned_def requiredSigners_def)

lemma click_inv:
  assumes "sessionInv w" shows "sessionInv (handleSignWithDestinationWallet w)"
  using assms
  by (auto simp: sessionInv_def handleSignWithDestinationWallet_def setTransferState_def
      split: option.splits Pending.splits)

lemma destinationSigned_inv:
  assumes "sessionInv w" shows "sessionInv (destinationSigned outcome w)"
proof -
  let ?w' = "destinationSigned outcome w"
  have old: "list_all (\<lambda>tx. \<exists>a d. bothSigned a d tx) (sentRaw w)"
    using assms by (simp add: sessionInv_def)
  have sent: "list_all (\<lambda>tx. \<exists>a d. bothSigned a d tx) (sentRaw ?w')"
  proof (cases "sentRaw ?w' = sentRaw w")
    case True
    with old show ?thesis by simp
  next
    case False
    with destinationSigned_sent [of outcome w] obtain tx me where
      st: "pendingSubmit w = Some (AwaitingSignature tx me)"
      and req: "set (requiredSigners (tx\<lparr> signatures := List.insert me (signatures tx) \<rparr>))
                  \<subseteq> set (List.insert me (signatures tx))"
      and eq: "sentRaw ?w' = sentRaw w @ [tx\<lparr> signatures := List.insert me (signatures tx) \<rparr>]"
      by blast
    from assms st obtain a where "partiallySigned a me tx"
      by (auto simp: sessionInv_def)
    with req have "bothSigned a me (tx\<lparr> signatures := List.insert me (signatures tx) \<rparr>)"
      by (intro partial_both) simp_all
    then have "\<exists>a d. bothSigned a d (tx\<lparr> signatures := List.insert me (signatures tx) \<rparr>)"
      by blast
    with old eq show ?thesis by simp
  qed
  have pend: "case pendingSubmit ?w' of
                Some (AwaitingSignature tx me) \<Rightarrow> \<exists>a. partiallySigned a me tx | _ \<Rightarrow> True"
    using assms destinationSigned_ts(4) [of outcome w]
    by (auto simp: sessionInv_def split: option.splits Pending.splits)
  show ?thesis
    using assms sent pend
    by (auto simp: sessionInv_def destinationSigned_ts(1,2,3) split: option.splits)
qed

lemma submissionSettled_inv:
  assumes "sessionInv w" shows "sessionInv (submissionSettled env w)"
proof -
  have pend: "case pendingSubmit (submissionSettled env w) of
                Some (AwaitingSignature tx me) \<Rightarrow> \<exists>a. partiallySigned a me tx | _ \<Rightarrow> True"
    using assms submissionSettled_frame(5) [of env w]
    by (auto simp: sessionInv_def split: option.splits Pending.splits)
  show ?thesis
    using assms pend submissionSettled_frame(4) [of env w]
    by (auto simp: sessionInv_def submissionSettled_frame(1,2,3) split: option.splits)
qed

lemma act_inv: "sessionInv w \<Longrightarrow> sessionInv (act wellFormed e w)"
proof (cases e)
  case (ClickSignCurrent env) then show "sessionInv w \<Longrightarrow> ?thesis"
    by (simp add: act_def signCurrent_inv)
next
  case ClickSignDestination then show "sessionInv w \<Longrightarrow> ?thesis"
    by (simp add: act_def click_inv)
next
  case (DestinationSigned outcome) then show "sessionInv w \<Longrightarrow> ?thesis"
    by (simp add: act_def destinationSigned_inv)
next
  case (SubmissionSettled env) then show "sessionInv w \<Longrightarrow> ?thesis"
    by (simp add: act_def submissionSettled_inv)
next
  case (ClickDelete p i env) then show "sessionInv w \<Longrightarrow> ?thesis"
    by (auto simp: act_def sessionInv_def delete_frame split: option.splits)
next
  case (RunFetchProfiles env) then show "sessionInv w \<Longrightarrow> ?thesis"
    by (auto simp: act_def sessionInv_def fetch_frame split: option.splits)
qed (auto simp: act_def sessionInv_def timerTick_def updateTimer_def setTransferState_def
       openTransferModal_def closeTransferModal_def handleDestinationSubmit_def
       handleRestartTransfer_def onChangeDestination_def onClickBack_def onClickContinueToSign_def
       initialTransferState_def modalAt_def Let_def split: option.splits sum.splits)

lemma fire_inv: "sessionInv w \<Longrightarrow> sessionInv (fire wellFormed e w)"
  by (simp add: fire_def settle_inv act_inv)

lemma reachable_inv: "w \<in> reachable wellFormed \<Longrightarrow> sessionInv w"
  by (induction rule: reachable.induct)
     (simp_all add: fire_inv, simp add: sessionInv_def initialWorld_def initialTransferState_def)

lemma act_sent_other:
  "(\<And>outcome. e \<noteq> DestinationSigned outcome) \<Longrightarrow> sentRaw (act wellFormed e w) = sentRaw w"
  by (cases e)
     (auto simp: act_def fetch_frame delete_frame signCurrent_sent signDest_click
      submissionSettled_frame timerTick_def updateTimer_def
      setTransferState_def openTransferModal_def closeTransferModal_def
      handleDestinationSubmit_def handleRestartTransfer_def onChangeDestination_def
      onClickBack_def onClickContinueToSign_def Let_def split: option.splits sum.splits)

text \<open>A call of the destination-sign handler is suspended at the wallet only by the click.\<close>

lemma act_pending_other:
  "e \<noteq> ClickSignDestination \<Longrightarrow>
   pendingSubmit (act wellFormed e w) = pendingSubmit w
   \<or> pendingSubmit (act wellFormed e w) = None
   \<or> pendingSubmit (act wellFormed e w) = Some AwaitingNetwork"
  using destinationSigned_ts(4) submissionSettled_frame(5)
  by (cases e)
     (auto simp: act_def fetch_frame delete_frame signCurrent_sent timerTick_def updateTimer_def
      setTransferState_def openTransferModal_def closeTransferModal_def
      handleDestinationSubmit_def handleRestartTransfer_def onChangeDestination_def
      onClickBack_def onClickContinueToSign_def Let_def split: option.splits sum.splits)

section \<open>The button Continue to Sign and the wallet watch\<close>

lemma walletWatch_updater:
  "walletWatch w = (setTransferState (walletWatchUpdater w) w)\<lparr> prevWalletRef := currentWallet (wallet w) \<rparr>"
  by (simp add: walletWatch_def walletWatchUpdater_def setTransferState_def Let_def
      split: option.splits)















section \<open>Claims\<close>

text \<open>
  Claim C1, as amended.  For a session whose signedAt is set, to a time other than 0, and
  whose step is neither complete nor expired: once now - signedAt has reached the validity
  window of 42 seconds, the next run of the timer (the one-second tick, or the immediate
  update of the timer effect) moves the session to expired.  From expired, as long as no
  call of the destination-sign handler is suspended, no event other than restart or cancel
  changes the step, none submits anything and none starts such a call: the button that
  signs and submits is not rendered there.  Expiry is enforced by the timer alone.  No part
  of the destination-sign handler reads the clock, at the click or after an await; what
  the continuation after the wallet's answer sends does not depend on the session, and the
  continuation after the network's answers sets the step to complete whatever the step is
  then.  So a call that is suspended when the timer sets expired still submits and then
  replaces expired by complete.
\<close>

theorem expiry_enforced_by_timer:
  assumes "signedAt (transferState w) = Some t" and "t \<noteq> 0"
      and "step (transferState w) \<noteq> complete" and "step (transferState w) \<noteq> expired"
      and "clock w - t \<ge> BLOCKHASH_VALIDITY_SECONDS * 1000"
  shows "step (transferState (fire wellFormed TimerTick w)) = expired
       \<and> step (transferState (timerEffect w)) = expired
       \<and> (step (transferState v) = expired \<and> pendingSubmit v = None
            \<and> e \<noteq> ClickRestart \<and> e \<noteq> ClickCancel \<longrightarrow>
            step (transferState (fire wellFormed e v)) = expired
            \<and> sentRaw (fire wellFormed e v) = sentRaw v
            \<and> pendingSubmit (fire wellFormed e v) = None)
       \<and> handleSignWithDestinationWallet (u\<lparr> clock := c \<rparr>)
            = (handleSignWithDestinationWallet u)\<lparr> clock := c \<rparr>
       \<and> destinationSigned outcome (u\<lparr> clock := c \<rparr>)
            = (destinationSigned outcome u)\<lparr> clock := c \<rparr>
       \<and> submissionSettled env (u\<lparr> clock := c \<rparr>)
            = (submissionSettled env u)\<lparr> clock := c \<rparr>
       \<and> sentRaw (destinationSigned outcome (u\<lparr> transferState := x \<rparr>))
            = sentRaw (destinationSigned outcome u)
       \<and> (pendingSubmit u = Some AwaitingNetwork \<and> sendRawOutcome env = Inr txid
            \<and> confirmBlockhash env = Inr bh \<and> confirmOutcome env = Inr () \<longrightarrow>
            step (transferState (submissionSettled env u)) = complete)"
proof -
  have "step (transferState (act wellFormed TimerTick w)) = expired"
    using tick_expires(1) [OF assms] by (simp add: act_def)
  then have one: "step (transferState (fire wellFormed TimerTick w)) = expired"
    by (simp add: fire_def settle_keeps_expired)
  have sent: "sentRaw (destinationSigned outcome (u\<lparr> transferState := x \<rparr>))
                = sentRaw (destinationSigned outcome u)"
    by (simp add: destinationSigned_def submissionFailed_def setTransferState_def
        split: option.splits sum.splits Pending.splits)
  have fin: "pendingSubmit u = Some AwaitingNetwork \<and> sendRawOutcome env = Inr txid
            \<and> confirmBlockhash env = Inr bh \<and> confirmOutcome env = Inr () \<longrightarrow>
            step (transferState (submissionSettled env u)) = complete"
    by (simp add: submissionSettled_def setTransferState_def)
  from one tick_expires(2) [OF assms]
    stay_expired [where v = v and e = e and wellFormed = wellFormed]
    signDest_clock(1) [where u = u and c = c]
    signDest_clock(2) [where outcome = outcome and u = u and c = c]
    signDest_clock(3) [where env = env and u = u and c = c] sent fin
  show ?thesis by blast
qed

theorem expiry_enforced_by_timer_witness:
  "signedAt (transferState w8b) = Some 1000000
   \<and> step (transferState w8b) = sign_destination
   \<and> clock w8b - 1000000 = 42500
   \<and> step (transferState (fire isAddress TimerTick w8b)) = expired
   \<and> step (transferState w11) = expired
   \<and> step (transferState (fire isAddress ClickSignDestination w11)) = expired
   \<and> sentRaw (fire isAddress ClickSignDestination w11) = []
   \<and> pendingSubmit (fire isAddress ClickSignDestination w11) = None
   \<and> step (transferState r3) = expired
   \<and> step (transferState (submissionSettled submitOk r3)) = complete"
proof -
  have h1: "signedAt (transferState w8b) = Some 1000000" by (simp add: side_world_defs world_defs)
  have h2: "(1000000 :: int) \<noteq> 0" by simp
  have st: "step (transferState w8b) = sign_destination" by (simp add: side_world_defs world_defs)
  have h3: "step (transferState w8b) \<noteq> complete" and h4: "step (transferState w8b) \<noteq> expired"
    by (simp_all add: st)
  have ck: "clock w8b - 1000000 = 42500" by (simp add: side_world_defs world_defs)
  have h5: "clock w8b - 1000000 \<ge> BLOCKHASH_VALIDITY_SECONDS * 1000"
    by (simp add: ck BLOCKHASH_VALIDITY_SECONDS_def)
  have ex: "step (transferState w11) = expired" "sentRaw w11 = []" "pendingSubmit w11 = None"
    by (simp_all add: world_defs)
  have r: "step (transferState r3) = expired" "pendingSubmit r3 = Some AwaitingNetwork"
    by (simp_all add: world_defs)
  have env: "sendRawOutcome submitOk = Inr ''signature''"
    "confirmBlockhash submitOk = Inr ''blockhash2''" "confirmOutcome submitOk = Inr ()"
    by (simp_all add: submitOk_def)
  from expiry_enforced_by_timer [where wellFormed = isAddress and v = w11
      and e = ClickSignDestination and env = submitOk and u = r3 and c = 0
      and outcome = "Inr ()" and x = "transferState r3" and txid = "''signature''"
      and bh = "''blockhash2''", OF h1 h2 h3 h4 h5]
  have "step (transferState (fire isAddress TimerTick w8b)) = expired
        \<and> step (transferState (fire isAddress ClickSignDestination w11)) = expired
        \<and> sentRaw (fire isAddress ClickSignDestination w11) = sentRaw w11
        \<and> pendingSubmit (fire isAddress ClickSignDestination w11) = None
        \<and> step (transferState (submissionSettled submitOk r3)) = complete"
    using ex r env by simp
  with h1 st ck ex r show ?thesis by simp
qed

text \<open>
  Counterexample to C1 as stated, in two runs.  In the reachable world \<open>w9\<close> the first
  signature is 42.1 s old, the last tick of the timer ran at 41.5 s and the next is due at
  42.5 s.  The step is still sign_destination; the click on Sign and Complete Transfer is
  accepted, the wallet signs, the transaction is submitted and the transfer completes:
  nothing re-checks expiry before the submission.  In the reachable world \<open>r2\<close> the click
  came at 41.5 s and the timer has set the step to expired at 42.5 s while the wallet was
  asked to sign; the wallet's answer then submits the transaction and the confirmation
  replaces expired by complete, without a restart.
\<close>

theorem sign_after_window_counterexample:
  "w9 \<in> reachable isAddress
   \<and> step (transferState w9) = sign_destination
   \<and> signedAt (transferState w9) = Some 1000000
   \<and> clock w9 - 1000000 \<ge> BLOCKHASH_VALIDITY_SECONDS * 1000
   \<and> fire isAddress ClickSignDestination w9 = w9a
   \<and> fire isAddress (DestinationSigned (Inr ())) w9a = w9b
   \<and> sentRaw w9b = [partialTx\<lparr> signatures := [walletD, walletA] \<rparr>]
   \<and> fire isAddress (SubmissionSettled submitOk) w9b = w10
   \<and> step (transferState w10) = complete
   \<and> r2 \<in> reachable isAddress
   \<and> step (transferState r2) = expired
   \<and> signedAt (transferState r2) = Some 1000000
   \<and> clock r2 - 1000000 \<ge> BLOCKHASH_VALIDITY_SECONDS * 1000
   \<and> sentRaw r2 = []
   \<and> fire isAddress (DestinationSigned (Inr ())) r2 = r3
   \<and> sentRaw r3 = [partialTx\<lparr> signatures := [walletD, walletA] \<rparr>]
   \<and> fire isAddress (SubmissionSettled submitOk) r3 = r4
   \<and> step (transferState r4) = complete"
  using reach9 reachr2
  by (simp add: s10a s10b s10 sr3 sr4) (simp add: world_defs BLOCKHASH_VALIDITY_SECONDS_def)

text \<open>
  Claim C2.  For all sequences of events, the transfer transaction is never passed to
  \<^verbatim>\<open>sendRawTransaction\<close> with fewer than both signatures: every transaction sent in a
  reachable world is a transfer from some key \<open>a\<close> to some key \<open>d\<close>, paid by \<open>d\<close>, that
  carries the signatures of \<open>a\<close> and of \<open>d\<close> and of every account it marks as signer.  The
  first-signature handler sends nothing.  The only event that sends is the answer of the
  wallet to a suspended call of the destination-sign handler: what is sent is the
  transaction that call holds, a transfer to the key \<open>me\<close> of the wallet that was asked,
  signed by the first signer alone, with the signature of \<open>me\<close> added.  Such a call is
  suspended only by the click on Sign and Complete Transfer, and it holds the partially
  signed transaction stored at the click and the key of the wallet connected at the click,
  which is the stored destination.  (The keys \<open>a\<close> and \<open>d\<close> coincide when the
  destination wallet is itself an auth key of the profile and gives the first signature
  too.)  The transaction that deletes a key is a different one: it goes through
  \<^verbatim>\<open>wallet.sendTransaction\<close>, which signs and sends.
\<close>

theorem no_premature_submission:
  assumes "w \<in> reachable wellFormed"
  shows "list_all (\<lambda>tx. \<exists>a d. bothSigned a d tx) (sentRaw w)
       \<and> sentRaw (handleSignWithCurrentWallet wellFormed senv w) = sentRaw w
       \<and> (sentRaw (fire wellFormed e w) = sentRaw w
          \<or> (\<exists>outcome stored me a. e = DestinationSigned outcome
               \<and> pendingSubmit w = Some (AwaitingSignature stored me)
               \<and> partiallySigned a me stored
               \<and> sentRaw (fire wellFormed e w) =
                   sentRaw w @ [stored\<lparr> signatures := List.insert me (signatures stored) \<rparr>]))
       \<and> (pendingSubmit (fire wellFormed e w) = pendingSubmit w
          \<or> pendingSubmit (fire wellFormed e w) = None
          \<or> pendingSubmit (fire wellFormed e w) = Some AwaitingNetwork
          \<or> (\<exists>stored. e = ClickSignDestination
               \<and> partiallySignedTx (transferState w) = Some stored
               \<and> publicKey (wallet w) = Some (destinationPubkey (transferState w))
               \<and> pendingSubmit (fire wellFormed e w)
                    = Some (AwaitingSignature stored (destinationPubkey (transferState w)))))"
proof -
  have inv: "sessionInv w" using assms by (rule reachable_inv)
  then have one: "list_all (\<lambda>tx. \<exists>a d. bothSigned a d tx) (sentRaw w)"
    by (simp add: sessionInv_def)
  have three: "sentRaw (fire wellFormed e w) = sentRaw w
          \<or> (\<exists>outcome stored me a. e = DestinationSigned outcome
               \<and> pendingSubmit w = Some (AwaitingSignature stored me)
               \<and> partiallySigned a me stored
               \<and> sentRaw (fire wellFormed e w) =
                   sentRaw w @ [stored\<lparr> signatures := List.insert me (signatures stored) \<rparr>])"
  proof (cases "\<exists>outcome. e = DestinationSigned outcome")
    case False
    then show ?thesis by (simp add: fire_def settle_frame act_sent_other)
  next
    case True
    then obtain outcome where e: "e = DestinationSigned outcome" by blast
    show ?thesis
    proof (cases "sentRaw (fire wellFormed e w) = sentRaw w")
      case True then show ?thesis by simp
    next
      case False
      then have ne: "sentRaw (destinationSigned outcome w) \<noteq> sentRaw w"
        and eq: "sentRaw (fire wellFormed e w) = sentRaw (destinationSigned outcome w)"
        by (simp_all add: e fire_def settle_frame act_def)
      from ne destinationSigned_sent [of outcome w] obtain stored me where
        st: "pendingSubmit w = Some (AwaitingSignature stored me)"
        and snt: "sentRaw (destinationSigned outcome w) =
          sentRaw w @ [stored\<lparr> signatures := List.insert me (signatures stored) \<rparr>]"
        by blast
      from inv st obtain a where "partiallySigned a me stored"
        by (auto simp: sessionInv_def)
      with e st snt eq show ?thesis by auto
    qed
  qed
  have four: "pendingSubmit (fire wellFormed e w) = pendingSubmit w
          \<or> pendingSubmit (fire wellFormed e w) = None
          \<or> pendingSubmit (fire wellFormed e w) = Some AwaitingNetwork
          \<or> (\<exists>stored. e = ClickSignDestination
               \<and> partiallySignedTx (transferState w) = Some stored
               \<and> publicKey (wallet w) = Some (destinationPubkey (transferState w))
               \<and> pendingSubmit (fire wellFormed e w)
                    = Some (AwaitingSignature stored (destinationPubkey (transferState w))))"
  proof (cases "e = ClickSignDestination")
    case False
    with act_pending_other [of e wellFormed w] show ?thesis
      by (simp add: fire_def settle_frame)
  next
    case True
    with signDest_click(3) [of w] show ?thesis
      by (auto simp: fire_def settle_frame act_def)
  qed
  from one three four show ?thesis by (simp add: signCurrent_sent)
qed

theorem no_premature_submission_witness:
  "w10 \<in> reachable isAddress
   \<and> sentRaw w10 = [partialTx\<lparr> signatures := [walletD, walletA] \<rparr>]
   \<and> (\<exists>a d. bothSigned a d (partialTx\<lparr> signatures := [walletD, walletA] \<rparr>))
   \<and> sentRaw w5 = []"
proof -
  have snt: "sentRaw w10 = [partialTx\<lparr> signatures := [walletD, walletA] \<rparr>]" "sentRaw w5 = []"
    by (simp_all add: world_defs)
  from no_premature_submission [OF reach10, where senv = signOk and e = TimerTick]
  have "list_all (\<lambda>tx. \<exists>a d. bothSigned a d tx) (sentRaw w10)" by blast
  then have "\<exists>a d. bothSigned a d (partialTx\<lparr> signatures := [walletD, walletA] \<rparr>)"
    by (simp add: snt)
  with reach10 snt show ?thesis by simp
qed

text \<open>
  Claim C3, as amended.  Submitting the destination address in enter_destination advances
  the session to sign_current exactly when the trimmed input is a well-formed address and
  differs from the address of the wallet connected at that moment; otherwise the step stays
  enter_destination and a validation error is recorded.  When the connected wallet is
  still the one captured as originalAuthPubkey, this is distinctness from
  originalAuthPubkey.  In both cases nothing outside the transfer state changes (no wallet
  interaction), and within it only step and error.
\<close>

theorem destination_submit_guard:
  assumes "step (transferState w) = enter_destination"
  shows "(step (transferState (handleDestinationSubmit wellFormed w)) = sign_current
            \<longleftrightarrow> wellFormed (trim (destinationPubkey (transferState w)))
                \<and> publicKey (wallet w) \<noteq> Some (trim (destinationPubkey (transferState w))))
       \<and> (step (transferState (handleDestinationSubmit wellFormed w)) \<noteq> sign_current
            \<longrightarrow> step (transferState (handleDestinationSubmit wellFormed w)) = enter_destination
              \<and> error (transferState (handleDestinationSubmit wellFormed w)) \<noteq> None)
       \<and> (publicKey (wallet w) = Some (originalAuthPubkey (transferState w))
            \<longrightarrow> (step (transferState (handleDestinationSubmit wellFormed w)) = sign_current
                  \<longleftrightarrow> wellFormed (trim (destinationPubkey (transferState w)))
                      \<and> trim (destinationPubkey (transferState w)) \<noteq> originalAuthPubkey (transferState w)))
       \<and> (handleDestinationSubmit wellFormed w)\<lparr> transferState := transferState w \<rparr> = w
       \<and> (transferState (handleDestinationSubmit wellFormed w))
            \<lparr> step := step (transferState w), error := error (transferState w) \<rparr> = transferState w"
  using assms
  by (auto simp: handleDestinationSubmit_def newPublicKey_def setTransferState_def Let_def)

theorem destination_submit_guard_witness:
  "step (transferState (handleDestinationSubmit isAddress w3)) = sign_current
   \<and> step (transferState (handleDestinationSubmit isAddress
        (onChangeDestination walletA w3))) = enter_destination
   \<and> error (transferState (handleDestinationSubmit isAddress
        (onChangeDestination walletA w3))) = Some ''Destination cannot be the same as current wallet''
   \<and> error (transferState (handleDestinationSubmit isAddress
        (onChangeDestination ''not an address'' w3))) = Some ''Invalid Solana address''"
proof -
  have h: "step (transferState w3) = enter_destination" by (simp add: world_defs)
  have ok: "isAddress (trim (destinationPubkey (transferState w3)))
            \<and> publicKey (wallet w3) \<noteq> Some (trim (destinationPubkey (transferState w3)))"
    by (simp add: world_defs wallets_trim addrD connectedAs_def wallets_distinct)
  from destination_submit_guard [OF h, of isAddress] ok
  have one: "step (transferState (handleDestinationSubmit isAddress w3)) = sign_current"
    by blast
  have same: "step (transferState (handleDestinationSubmit isAddress
        (onChangeDestination walletA w3))) = enter_destination
   \<and> error (transferState (handleDestinationSubmit isAddress
        (onChangeDestination walletA w3))) = Some ''Destination cannot be the same as current wallet''"
    by (simp add: world_defs handleDestinationSubmit_def onChangeDestination_def newPublicKey_def
        setTransferState_def wallets_trim addrA connectedAs_def Let_def)
  have bad: "\<not> isAddress (trim ''not an address'')"
    by (simp add: isAddress_def base58Alphabet_def trim_def isWhiteSpace_def)
  have two: "error (transferState (handleDestinationSubmit isAddress
        (onChangeDestination ''not an address'' w3))) = Some ''Invalid Solana address''"
    using bad
    by (simp add: handleDestinationSubmit_def onChangeDestination_def newPublicKey_def
        setTransferState_def Let_def)
  from one same two show ?thesis by simp
qed

text \<open>
  Counterexample to C3 as stated: the session was opened with wallet A, the wallet then
  switched to C, and the address of A itself is submitted as destination.  The session
  advances to sign_current although the destination equals originalAuthPubkey.
\<close>

theorem destination_equals_original_counterexample:
  "x2 \<in> reachable isAddress
   \<and> step (transferState x2) = enter_destination
   \<and> originalAuthPubkey (transferState x2) = walletA
   \<and> destinationPubkey (transferState x2) = walletA
   \<and> step (transferState (fire isAddress ClickContinue x2)) = sign_current
   \<and> destinationPubkey (transferState (fire isAddress ClickContinue x2)) = walletA
   \<and> error (transferState (fire isAddress ClickContinue x2)) = None"
  using reachx2
  by (simp add: sx3) (simp add: more_world_defs world_defs initialTransferState_def)



text \<open>
  Claim C5.  While the session is in connect_destination, when the connected identity
  becomes equal to destinationPubkey the wallet-watch effect advances the step to
  sign_destination with no user action (the event then continues with the timer effect,
  which restarts because the step has changed); when the connected identity is non-null
  and equals neither destinationPubkey nor originalAuthPubkey, the event records the
  error "Wrong wallet connected. Expected: " followed by the first and last four
  characters of the destination, and the step remains connect_destination.  A connected
  identity is the base58 text of a key, hence not the empty string.
\<close>

theorem wallet_watch_reconciles:
  assumes "step (transferState v) = connect_destination"
      and "publicKey wl = Some c" and "c \<noteq> []" and "publicKey (wallet v) \<noteq> Some c"
  shows "(c = destinationPubkey (transferState v) \<longrightarrow>
            step (transferState (walletWatch (v\<lparr> wallet := wl \<rparr>))) = sign_destination
            \<and> fire wellFormed (WalletChanged wl) v = timerEffect (walletWatch (v\<lparr> wallet := wl \<rparr>)))
       \<and> (c \<noteq> destinationPubkey (transferState v) \<and> c \<noteq> originalAuthPubkey (transferState v) \<longrightarrow>
            fire wellFormed (WalletChanged wl) v = walletWatch (v\<lparr> wallet := wl \<rparr>)
            \<and> step (transferState (fire wellFormed (WalletChanged wl) v)) = connect_destination
            \<and> error (transferState (fire wellFormed (WalletChanged wl) v)) =
                Some (''Wrong wallet connected. Expected: ''
                      @ take 4 (destinationPubkey (transferState v)) @ ''...''
                      @ slice_last 4 (destinationPubkey (transferState v))))"
  using assms
  by (auto simp: walletWatch_def currentWallet_def setTransferState_def Let_def
      fire_def act_def settle_def walletDeps_def timerDeps_def)

theorem wallet_watch_reconciles_witness:
  "step (transferState (walletWatch (w6\<lparr> wallet := connectedAs walletD \<rparr>))) = sign_destination
   \<and> step (transferState (fire isAddress (WalletChanged (connectedAs walletC)) w6)) = connect_destination
   \<and> error (transferState (fire isAddress (WalletChanged (connectedAs walletC)) w6)) =
       Some ''Wrong wallet connected. Expected: Stak...1111''"
proof -
  have st: "step (transferState w6) = connect_destination" by (simp add: world_defs)
  have none: "publicKey (wallet w6) \<noteq> Some walletD" "publicKey (wallet w6) \<noteq> Some walletC"
    by (simp_all add: world_defs disconnected_def)
  have pk: "publicKey (connectedAs walletD) = Some walletD"
    "publicKey (connectedAs walletC) = Some walletC"
    by (simp_all add: connectedAs_def)
  have dd: "destinationPubkey (transferState w6) = walletD"
    "originalAuthPubkey (transferState w6) = walletA"
    by (simp_all add: world_defs)
  have short: "take 4 walletD = ''Stak''" "slice_last 4 walletD = ''1111''"
    by (simp_all add: walletD_def slice_last_def)
  have "step (transferState (walletWatch (w6\<lparr> wallet := connectedAs walletD \<rparr>))) = sign_destination"
    using wallet_watch_reconciles [OF st pk(1) wallets_distinct(8) none(1), of isAddress]
    by (simp add: dd)
  moreover
  have "step (transferState (fire isAddress (WalletChanged (connectedAs walletC)) w6)) = connect_destination
        \<and> error (transferState (fire isAddress (WalletChanged (connectedAs walletC)) w6)) =
            Some ''Wrong wallet connected. Expected: Stak...1111''"
    using wallet_watch_reconciles [OF st pk(2) wallets_distinct(9) none(2), of isAddress]
    by (auto simp: dd wallets_distinct short)
  ultimately show ?thesis by simp
qed

text \<open>
  Claim C6.  Disconnecting the wallet (the connected identity becomes null) while the step
  is connect_destination, sign_destination, expired or complete does not reset or clear
  the transfer session: the wallet change and the effects it triggers leave the whole
  transfer state (step, destinationPubkey, originalAuthPubkey, partiallySignedTx, signedAt
  and the rest) as it was, and the modal and the selected profile too.
\<close>

theorem disconnect_keeps_session:
  assumes "step (transferState w) \<in> {connect_destination, sign_destination, expired, complete}"
      and "publicKey wl = None"
  shows "transferState (fire wellFormed (WalletChanged wl) w) = transferState w
         \<and> modalOpen (fire wellFormed (WalletChanged wl) w) = modalOpen w
         \<and> selectedProfile (fire wellFormed (WalletChanged wl) w) = selectedProfile w"
  using assms(2)
  by (simp add: fire_def act_def settle_def walletWatch_def currentWallet_def timerDeps_def Let_def)

theorem disconnect_keeps_session_witness:
  "step (transferState w7) = sign_destination
   \<and> publicKey disconnected = None
   \<and> transferState (fire isAddress (WalletChanged disconnected) w7) = transferState w7
   \<and> partiallySignedTx (transferState (fire isAddress (WalletChanged disconnected) w7)) = Some partialTx"
proof -
  have h1: "step (transferState w7) \<in> {connect_destination, sign_destination, expired, complete}"
    by (simp add: world_defs)
  have h2: "publicKey disconnected = None"
    by (simp add: disconnected_def)
  from disconnect_keeps_session [OF h1 h2, of isAddress]
  have "transferState (fire isAddress (WalletChanged disconnected) w7) = transferState w7"
    by simp
  then show ?thesis using h2 by (simp add: world_defs)
qed

text \<open>
  Claim C7.  Restarting from expired (the Restart button of the modal, followed by the
  effects it triggers) sets the step to sign_current and clears exactly partiallySignedTx,
  signedAt and error; destinationPubkey, originalAuthPubkey, profileKey, profileCreatedAt
  and profileKeyThreshold keep their values.
\<close>

theorem restart_frame:
  assumes "step (transferState w) = expired" and "modalOpen w"
  shows "transferState (fire wellFormed ClickRestart w) =
           (transferState w)\<lparr> step := sign_current, partiallySignedTx := None,
                                signedAt := None, error := None \<rparr>"
proof -
  have "modalAt expired w"
    using assms
    by (simp add: modalAt_def pageRendered_def showConnectWalletMessage_def
        showTransferModal_def isTransferInProgress_def)
  then show ?thesis
    by (simp add: fire_def act_def settle_def handleRestartTransfer_def setTransferState_def
        walletWatch_def timerEffect_def timerActive_def Let_def split: option.splits)
qed

theorem restart_frame_witness:
  "step (transferState w11) = expired \<and> modalOpen w11
   \<and> step (transferState (fire isAddress ClickRestart w11)) = sign_current
   \<and> partiallySignedTx (transferState (fire isAddress ClickRestart w11)) = None
   \<and> signedAt (transferState (fire isAddress ClickRestart w11)) = None
   \<and> error (transferState (fire isAddress ClickRestart w11)) = None
   \<and> destinationPubkey (transferState (fire isAddress ClickRestart w11)) = walletD
   \<and> originalAuthPubkey (transferState (fire isAddress ClickRestart w11)) = walletA"
proof -
  have h1: "step (transferState w11) = expired" by (simp add: world_defs)
  have h2: "modalOpen w11" by (simp add: world_defs)
  show ?thesis
    using h1 h2 restart_frame [OF h1 h2, of isAddress] by (simp add: world_defs)
qed

text \<open>
  Claim C8.  The delete-key operation is never dispatched for a key whose auth flag is
  true: a click on the Delete button of such a row does nothing (the button is not
  rendered), and whenever an event adds to the calls of \<^verbatim>\<open>PlayerProfile.removeKeys\<close> or to
  the transactions handed to \<^verbatim>\<open>wallet.sendTransaction\<close>, it is a click on the row of a key
  without the auth flag, and the range built is the one of that row, [j, j+1).
\<close>

theorem auth_key_never_deleted:
  assumes "p < length (profiles w)" and "i < length (profileKeys (profiles w ! p))"
      and "pkAuth (profileKeys (profiles w ! p) ! i)"
  shows "fire wellFormed (ClickDelete p i env) w = w
       \<and> (removeKeysBuilt (fire wellFormed e w) \<noteq> removeKeysBuilt w
            \<or> sentByWallet (fire wellFormed e w) \<noteq> sentByWallet w \<longrightarrow>
          (\<exists>q j denv. e = ClickDelete q j denv \<and> q < length (profiles w)
              \<and> j < length (profileKeys (profiles w ! q))
              \<and> \<not> pkAuth (profileKeys (profiles w ! q) ! j)
              \<and> removeKeysBuilt (fire wellFormed e w) =
                  removeKeysBuilt w @ [(profKey (profiles w ! q), j, j + 1)]))"
proof -
  have a: "fire wellFormed (ClickDelete p i env) w = w"
    using assms by (simp add: fire_def act_def settle_def rowButton_def rowAction_def Let_def)
  have settle_logs: "\<And>b a. removeKeysBuilt (settle b a) = removeKeysBuilt a
                         \<and> sentByWallet (settle b a) = sentByWallet a"
    by (simp add: settle_def walletWatch_def timerEffect_def updateTimer_def setTransferState_def
        Let_def split: option.splits)
  have fetch_logs: "\<And>fenv u. removeKeysBuilt (fetchProfiles wellFormed fenv u) = removeKeysBuilt u
                         \<and> sentByWallet (fetchProfiles wellFormed fenv u) = sentByWallet u"
    by (simp add: fetchProfiles_def Let_def split: sum.splits bool.splits)
  have b: "removeKeysBuilt (fire wellFormed e w) \<noteq> removeKeysBuilt w
            \<or> sentByWallet (fire wellFormed e w) \<noteq> sentByWallet w \<longrightarrow>
          (\<exists>q j denv. e = ClickDelete q j denv \<and> q < length (profiles w)
              \<and> j < length (profileKeys (profiles w ! q))
              \<and> \<not> pkAuth (profileKeys (profiles w ! q) ! j)
              \<and> removeKeysBuilt (fire wellFormed e w) =
                  removeKeysBuilt w @ [(profKey (profiles w ! q), j, j + 1)])"
  proof (cases e)
    case (ClickDelete q j denv)
    show ?thesis
      unfolding ClickDelete
      by (auto simp: fire_def settle_logs act_def rowButton_def rowAction_def handleDeleteKey_def
          fetch_logs Let_def split: if_splits option.splits sum.splits)
  qed (auto simp: fire_def settle_logs act_def fetch_logs timerTick_def updateTimer_def
         setTransferState_def openTransferModal_def closeTransferModal_def
         handleDestinationSubmit_def handleRestartTransfer_def onChangeDestination_def
         onClickBack_def onClickContinueToSign_def handleSignWithCurrentWallet_def
         handleSignWithDestinationWallet_def destinationSigned_def submissionSettled_def
         submissionFailed_def Let_def split: option.splits sum.splits Pending.splits)
  from a b show ?thesis by blast
qed

theorem auth_key_never_deleted_witness:
  "pkAuth (profileKeys (profiles w1 ! 0) ! 0)
   \<and> fire isAddress (ClickDelete 0 0 deleteOk) w1 = w1
   \<and> \<not> pkAuth (profileKeys (profiles w1 ! 0) ! 1)
   \<and> removeKeysBuilt (fire isAddress (ClickDelete 0 1 deleteOk) w1) = [(profKey profileOfA, 1, 2)]"
proof -
  have h1: "0 < length (profiles w1)" by (simp add: world_defs)
  have h2: "0 < length (profileKeys (profiles w1 ! 0))" by (simp add: world_defs profileOfA_def)
  have h3: "pkAuth (profileKeys (profiles w1 ! 0) ! 0)" by (simp add: world_defs profileOfA_def)
  have other: "\<not> pkAuth (profileKeys (profiles w1 ! 0) ! 1)" by (simp add: world_defs profileOfA_def)
  have built: "removeKeysBuilt (fire isAddress (ClickDelete 0 1 deleteOk) w1) = [(profKey profileOfA, 1, 2)]"
    by (simp add: world_defs model_defs ex_defs profileOfA_def wallets_distinct addrP)
  from auth_key_never_deleted [OF h1 h2 h3, of isAddress deleteOk "ClickDelete 0 1 deleteOk"]
  have "fire isAddress (ClickDelete 0 0 deleteOk) w1 = w1" by blast
  with h3 other built show ?thesis by simp
qed

text \<open>
  Claim C9, as amended.  While the step is connect_destination, sign_destination, expired
  or complete, a call of \<^verbatim>\<open>fetchProfiles\<close> (by its effect or by the Search button) sends
  no read request and leaves the profile list, and everything else, unchanged.  (The claim
  as stated, for every state in which a session exists, fails in sign_current and
  enter_destination: see the counterexample.)
\<close>

theorem fetch_suspended_after_first_signature:
  assumes "step (transferState w) \<in> {connect_destination, sign_destination, expired, complete}"
  shows "fetchProfiles wellFormed env w = w
       \<and> fire wellFormed (RunFetchProfiles env) w = w"
  using assms
  by (auto simp: fetchProfiles_def isTransferInProgress_def fire_def act_def settle_def)

theorem fetch_suspended_after_first_signature_witness:
  "step (transferState w7) = sign_destination
   \<and> fetchProfiles isAddress fetchNone w7 = w7
   \<and> rpcReads (fire isAddress (RunFetchProfiles fetchNone) w7) = 3
   \<and> profiles (fire isAddress (RunFetchProfiles fetchNone) w7) = [profileOfA]"
proof -
  have h: "step (transferState w7) \<in> {connect_destination, sign_destination, expired, complete}"
    by (simp add: world_defs)
  have st: "step (transferState w7) = sign_destination" by (simp add: world_defs)
  have vals: "rpcReads w7 = 3" "profiles w7 = [profileOfA]" by (simp_all add: world_defs)
  from fetch_suspended_after_first_signature [OF h, of isAddress fetchNone]
  show ?thesis using st vals by simp
qed

text \<open>
  Counterexample to C9 as stated: in the reachable world \<open>w4\<close> a session exists (the step
  is sign_current), and a call of \<^verbatim>\<open>fetchProfiles\<close> sends three read requests and replaces
  the profile list.
\<close>

theorem fetch_during_sign_current_counterexample:
  "w4 \<in> reachable isAddress
   \<and> step (transferState w4) = sign_current
   \<and> rpcReads w4 = 3
   \<and> rpcReads (fetchProfiles isAddress fetchNone w4) = 6
   \<and> profiles w4 = [profileOfA]
   \<and> profiles (fetchProfiles isAddress fetchNone w4) = []"
  using reach4
  by (simp add: world_defs fetchProfiles_def isTransferInProgress_def initialTransferState_def
      ex_defs addrP Let_def)

text \<open>
  Claim C10, as amended.  For every destination input that carries leading or trailing
  white space and whose trimmed form is a well-formed address different from the address of
  the connected wallet, submission succeeds and the session advances to sign_current, yet
  the session keeps the untrimmed text as destinationPubkey.  Every later use reads that
  untrimmed text: building the transfer transaction parses it (so building succeeds only if
  the untrimmed text is itself well-formed, and the fee payer is then the untrimmed text);
  and for any connected wallet whose address has no surrounding white space, the address
  differs from the stored destination, the wallet watch does not advance from
  connect_destination, and the destination-sign handler refuses: it submits nothing and
  does not ask the wallet to sign.
\<close>

theorem untrimmed_destination_is_stored:
  assumes "step (transferState w) = enter_destination"
      and "destinationPubkey (transferState w) = d"
      and "trim d \<noteq> d" and "wellFormed (trim d)"
      and "publicKey (wallet w) \<noteq> Some (trim d)"
  shows "step (transferState (handleDestinationSubmit wellFormed w)) = sign_current
       \<and> destinationPubkey (transferState (handleDestinationSubmit wellFormed w)) = d
       \<and> (destinationPubkey (transferState v) = d \<and> publicKey (wallet v) = Some c \<and> trim c = c \<longrightarrow>
            c \<noteq> d
            \<and> (step (transferState v) = connect_destination \<longrightarrow>
                 step (transferState (walletWatch v)) = connect_destination)
            \<and> sentRaw (handleSignWithDestinationWallet v) = sentRaw v
            \<and> step (transferState (handleSignWithDestinationWallet v)) = step (transferState v)
            \<and> pendingSubmit (handleSignWithDestinationWallet v) = pendingSubmit v)
       \<and> (destinationPubkey (transferState v) = d
            \<and> buildTransferTx wellFormed senv me prof v = Inr tx \<longrightarrow>
            wellFormed d \<and> feePayer tx = Some d)"
proof -
  have a: "step (transferState (handleDestinationSubmit wellFormed w)) = sign_current
       \<and> destinationPubkey (transferState (handleDestinationSubmit wellFormed w)) = d"
    using assms
    by (auto simp: handleDestinationSubmit_def newPublicKey_def setTransferState_def Let_def)
  have b: "destinationPubkey (transferState v) = d \<and> publicKey (wallet v) = Some c \<and> trim c = c \<longrightarrow>
            c \<noteq> d
            \<and> (step (transferState v) = connect_destination \<longrightarrow>
                 step (transferState (walletWatch v)) = connect_destination)
            \<and> sentRaw (handleSignWithDestinationWallet v) = sentRaw v
            \<and> step (transferState (handleSignWithDestinationWallet v)) = step (transferState v)
            \<and> pendingSubmit (handleSignWithDestinationWallet v) = pendingSubmit v"
    using assms(3)
    by (auto simp: walletWatch_def currentWallet_def setTransferState_def
        handleSignWithDestinationWallet_def Let_def split: option.splits)
  have c: "destinationPubkey (transferState v) = d
            \<and> buildTransferTx wellFormed senv me prof v = Inr tx \<longrightarrow>
            wellFormed d \<and> feePayer tx = Some d"
    by (auto simp: buildTransferTx_def newPublicKey_def signTransaction_def serialize_def Let_def
        split: sum.splits option.splits if_splits)
  from a b c show ?thesis by blast
qed

theorem untrimmed_destination_is_stored_witness:
  "step (transferState (handleDestinationSubmit isAddress u1)) = sign_current
   \<and> destinationPubkey (transferState (handleDestinationSubmit isAddress u1)) = CHR '' '' # walletD
   \<and> publicKey (wallet u3) = Some walletD
   \<and> step (transferState (walletWatch u3)) = connect_destination
   \<and> sentRaw (handleSignWithDestinationWallet u3) = []
   \<and> pendingSubmit (handleSignWithDestinationWallet u3) = None"
proof -
  have h1: "step (transferState u1) = enter_destination" by (simp add: side_world_defs world_defs)
  have h2: "destinationPubkey (transferState u1) = CHR '' '' # walletD"
    by (simp add: side_world_defs world_defs)
  have h3: "trim (CHR '' '' # walletD) \<noteq> CHR '' '' # walletD" by (simp add: padded_trim)
  have h4: "isAddress (trim (CHR '' '' # walletD))" by (simp add: padded_trim addrD)
  have h5: "publicKey (wallet u1) \<noteq> Some (trim (CHR '' '' # walletD))"
    by (simp add: side_world_defs world_defs padded_trim connectedAs_def wallets_distinct)
  have v: "destinationPubkey (transferState u3) = CHR '' '' # walletD"
    "publicKey (wallet u3) = Some walletD" "step (transferState u3) = connect_destination"
    "sentRaw u3 = []" "pendingSubmit u3 = None"
    by (simp_all add: side_world_defs world_defs connectedAs_def)
  from untrimmed_destination_is_stored [where wellFormed = isAddress and w = u1
      and d = "CHR '' '' # walletD" and v = u3 and c = walletD
      and senv = signOk and me = walletA and prof = profileOfA and tx = partialTx,
      OF h1 h2 h3 h4 h5]
  show ?thesis using v wallets_trim by simp
qed

text \<open>
  Counterexample to C10 as stated: the input is the address of the connected wallet A with
  a leading space.  Its trimmed form is a valid address, but validation fails with
  "Destination cannot be the same as current wallet" and the step stays enter_destination.
\<close>

theorem own_address_padded_counterexample:
  "u2 \<in> reachable isAddress
   \<and> step (transferState u2) = enter_destination
   \<and> destinationPubkey (transferState u2) = CHR '' '' # walletA
   \<and> trim (CHR '' '' # walletA) \<noteq> CHR '' '' # walletA
   \<and> isAddress (trim (CHR '' '' # walletA))
   \<and> step (transferState (fire isAddress ClickContinue u2)) = enter_destination
   \<and> error (transferState (fire isAddress ClickContinue u2))
        = Some ''Destination cannot be the same as current wallet''"
proof -
  have "fire isAddress ClickContinue u2
        = u2\<lparr> transferState := (transferState u2)
               \<lparr> error := Some ''Destination cannot be the same as current wallet'' \<rparr> \<rparr>"
    by (simp add: side_world_defs world_defs model_defs ex_defs wallets_distinct padded_trim addrA)
  then show ?thesis
    using reachu2 by (simp add: padded_trim addrA) (simp add: side_world_defs world_defs initialTransferState_def)
qed

end
